theory Spec2Isabelle
  imports Complex_Main
begin

section \<open>Data model (core/data\_loader.py)\<close>

text \<open>
  Python numbers are modelled as \<^typ>\<open>real\<close>: the fields of \<open>VehicleData\<close> are
  annotated \<open>float\<close>, and the model idealises them (no NaN, no infinities, no binary
  rounding of the arithmetic). Everything the code does with them is comparison,
  \<open>min\<close>, \<open>max\<close>, \<open>+\<close>, \<open>-\<close>, \<open>*\<close>, \<open>/\<close> by a non-zero constant and \<open>round\<close>.

  \<open>maneuver_name\<close> is not a field of the dataclass: it is an instance attribute that
  exists only once \<open>start_maneuver\<close>, \<open>stop_maneuver\<close> or \<open>reset_vehicle\<close> has assigned
  it. \<open>Absent\<close> is the attribute never assigned (reading it raises AttributeError),
  \<open>Assigned None\<close> is Python's \<open>None\<close>, \<open>Assigned (Some s)\<close> a string.
\<close>

datatype maneuver_attr = Absent | Assigned "string option"

record VehicleData =
  rpm :: real
  speed_kmh :: real
  odometer_km :: real
  gear :: string
  pos_x_m :: real
  pos_y_m :: real
  pos_z_m :: real
  angle_roll_deg :: real
  angle_pitch_deg :: real
  angle_yaw_deg :: real
  roll_rate_degs :: real
  pitch_rate_degs :: real
  yaw_rate_degs :: real
  clutch_value :: real
  break_value :: real
  accel_value :: real
  steering_wheel_angle :: real
  vehicle_started :: bool
  maneuver_active :: bool
  maneuver_name :: maneuver_attr

text \<open>\<open>VehicleData()\<close>: the dataclass defaults; no \<open>maneuver_name\<close> attribute yet.\<close>

definition VehicleData_default :: VehicleData where
  "VehicleData_default =
     \<lparr>rpm = 0, speed_kmh = 0, odometer_km = 0, gear = ''N'',
      pos_x_m = 0, pos_y_m = 0, pos_z_m = 0,
      angle_roll_deg = 0, angle_pitch_deg = 0, angle_yaw_deg = 0,
      roll_rate_degs = 0, pitch_rate_degs = 0, yaw_rate_degs = 0,
      clutch_value = 0, break_value = 0, accel_value = 0, steering_wheel_angle = 0,
      vehicle_started = False, maneuver_active = False, maneuver_name = Absent\<rparr>"

text \<open>\<open>VehicleData.validate\<close>. With numeric fields the TypeError handler is never entered.\<close>

definition validate :: "VehicleData \<Rightarrow> bool" where
  "validate v \<longleftrightarrow>
     0 \<le> rpm v \<and> rpm v \<le> 8000 \<and>
     0 \<le> speed_kmh v \<and> speed_kmh v \<le> 300 \<and>
     - 780 \<le> steering_wheel_angle v \<and> steering_wheel_angle v \<le> 780 \<and>
     0 \<le> clutch_value v \<and> clutch_value v \<le> 100 \<and>
     0 \<le> break_value v \<and> break_value v \<le> 100 \<and>
     0 \<le> accel_value v \<and> accel_value v \<le> 100"

section \<open>Python's \<open>round(x, ndigits)\<close>\<close>

text \<open>
  \<open>round\<close> with \<open>ndigits\<close> rounds to the nearest multiple of \<open>10 ^ (- ndigits)\<close>, ties
  to the even neighbour.
\<close>

definition round_half_even :: "real \<Rightarrow> int" where
  "round_half_even x =
     (let f = \<lfloor>x\<rfloor>; r = x - of_int f
      in if r < 1 / 2 then f
         else if 1 / 2 < r then f + 1
         else if even f then f else f + 1)"

definition py_round :: "real \<Rightarrow> nat \<Rightarrow> real" where
  "py_round x ndigits = of_int (round_half_even (x * 10 ^ ndigits)) / 10 ^ ndigits"

text \<open>\<open>d.get(key, default)\<close> on an entry that is present (\<open>Some\<close>) or missing.\<close>

definition get_or :: "'a option \<Rightarrow> 'a \<Rightarrow> 'a" where
  "get_or entry dflt = (case entry of Some x \<Rightarrow> x | None \<Rightarrow> dflt)"

section \<open>The control handler (core/control\_handler.py)\<close>

datatype level = INFO | WARNING | ERROR

type_synonym log_record = "level \<times> string"

text \<open>
  The handler's state. \<open>log_records\<close> collects what the module's logger receives at
  level INFO and above (\<open>logger.debug\<close> calls are diagnostics and are left out).
\<close>

record ControlHandler =
  vehicle_data :: VehicleData
  simulation_enabled :: bool
  is_running :: bool
  is_paused :: bool
  last_update_time :: real
  log_records :: "log_record list"

text \<open>A maneuver preset is a dictionary with up to three keys.\<close>

record preset =
  p_speed_kmh :: "real option"
  p_steering_wheel_angle :: "real option"
  p_break_value :: "real option"

definition empty_preset :: preset where
  "empty_preset = \<lparr>p_speed_kmh = None, p_steering_wheel_angle = None, p_break_value = None\<rparr>"

definition all_maneuver_presets :: "(string \<times> preset) list" where
  "all_maneuver_presets =
     [(''Standard Cruise'',
         \<lparr>p_speed_kmh = Some 60, p_steering_wheel_angle = Some 0, p_break_value = None\<rparr>),
      (''Sharp Turn'',
         \<lparr>p_speed_kmh = Some 30, p_steering_wheel_angle = Some 300, p_break_value = None\<rparr>),
      (''Emergency Stop'',
         \<lparr>p_speed_kmh = Some 0, p_steering_wheel_angle = None, p_break_value = Some 100\<rparr>)]"

text \<open>\<open>all_maneuver_presets.get(name, {})\<close>; the key \<open>None\<close> is in no dictionary here.\<close>

definition presets_get :: "string option \<Rightarrow> preset" where
  "presets_get name =
     (case name of
        None \<Rightarrow> empty_preset
      | Some s \<Rightarrow> (case map_of all_maneuver_presets s of None \<Rightarrow> empty_preset | Some p \<Rightarrow> p))"

text \<open>Truth value of a dictionary: it is not empty.\<close>

definition preset_truthy :: "preset \<Rightarrow> bool" where
  "preset_truthy p \<longleftrightarrow>
     p_speed_kmh p \<noteq> None \<or> p_steering_wheel_angle p \<noteq> None \<or> p_break_value p \<noteq> None"

definition driving_gears :: "string list" where
  "driving_gears = [''D'', ''R'', ''L'', ''1'', ''2'', ''3'', ''4'', ''5'', ''6'']"

datatype py_error = AttributeError | FileNotFoundError

text \<open>The nine \<open>random.uniform\<close> draws of one step, in the order the code makes them.\<close>

record draws =
  u_pos_x :: real
  u_pos_y :: real
  u_pos_z :: real
  u_roll :: real
  u_pitch :: real
  u_yaw :: real
  u_roll_rate :: real
  u_pitch_rate :: real
  u_yaw_rate :: real

subsection \<open>The stages of \<open>simulate_vehicle_data\<close>\<close>

text \<open>Lines 36--42, "RPM simulation".\<close>

definition rpm_simulation :: "real \<Rightarrow> VehicleData \<Rightarrow> VehicleData" where
  "rpm_simulation delta_time v =
     (let v1 =
        (if accel_value v > 0
         then v\<lparr>rpm := min 8000 (rpm v + accel_value v * 5 * delta_time)\<rparr>
         else if break_value v > 0
         then v\<lparr>rpm := max 0 (rpm v - break_value v * 2 * delta_time)\<rparr>
         else v\<lparr>rpm := max 0 (rpm v - 100 * delta_time)\<rparr>)
      in v1\<lparr>rpm := py_round (rpm v1) 0\<rparr>)"

text \<open>
  Lines 45--62, "Speed simulation". Reading \<open>maneuver_name\<close> on line 48 raises
  AttributeError when the attribute was never assigned; nothing of this stage has been
  written at that point.
\<close>

definition speed_simulation :: "real \<Rightarrow> VehicleData \<Rightarrow> py_error + VehicleData" where
  "speed_simulation delta_time v =
     (let rounded = (\<lambda>w. w\<lparr>speed_kmh := py_round (speed_kmh w) 1\<rparr>)
      in if maneuver_active v then
           (case maneuver_name v of
              Absent \<Rightarrow> Inl AttributeError
            | Assigned name \<Rightarrow>
                (let p = presets_get name
                 in if preset_truthy p
                    then Inr (rounded
                      (v\<lparr>speed_kmh := get_or (p_speed_kmh p) (speed_kmh v),
                         steering_wheel_angle :=
                           get_or (p_steering_wheel_angle p) (steering_wheel_angle v),
                         break_value := get_or (p_break_value p) (break_value v)\<rparr>))
                    else Inr (rounded v)))
         else if accel_value v > 0 \<and> break_value v = 0 \<and> gear v \<in> set driving_gears
         then Inr (rounded
           (v\<lparr>speed_kmh := min 300 (speed_kmh v + (accel_value v / 10) * delta_time * 5)\<rparr>))
         else if break_value v > 0
         then Inr (rounded
           (v\<lparr>speed_kmh := max 0 (speed_kmh v - (break_value v / 5) * delta_time * 5)\<rparr>))
         else if gear v \<in> set driving_gears \<and> speed_kmh v > 0
         then Inr (rounded (v\<lparr>speed_kmh := max 0 (speed_kmh v - 5 * delta_time)\<rparr>))
         else if gear v \<in> set [''N'', ''P'']
         then Inr (rounded (v\<lparr>speed_kmh := 0\<rparr>))
         else Inr (rounded v))"

text \<open>Lines 65--67, "Odometer".\<close>

definition odometer_update :: "real \<Rightarrow> VehicleData \<Rightarrow> VehicleData" where
  "odometer_update delta_time v =
     (if speed_kmh v > 0
      then v\<lparr>odometer_km := py_round (odometer_km v + (speed_kmh v / 3600) * delta_time) 3\<rparr>
      else v)"

text \<open>Lines 70--80, "Position and angles" and "Rates".\<close>

definition pose_and_rates :: "draws \<Rightarrow> VehicleData \<Rightarrow> VehicleData" where
  "pose_and_rates u v =
     v\<lparr>pos_x_m := py_round (pos_x_m v + u_pos_x u) 3,
       pos_y_m := py_round (pos_y_m v + u_pos_y u) 3,
       pos_z_m := py_round (pos_z_m v + u_pos_z u) 3,
       angle_roll_deg := py_round (u_roll u) 1,
       angle_pitch_deg := py_round (u_pitch u) 1,
       angle_yaw_deg := py_round (u_yaw u) 1,
       roll_rate_degs := py_round (2340 / 100 + u_roll_rate u) 1,
       pitch_rate_degs := py_round (2340 / 100 + u_pitch_rate u) 1,
       yaw_rate_degs := py_round (1667 / 10 + u_yaw_rate u) 1\<rparr>"

text \<open>Lines 83--88, "Ensure values stay within limits".\<close>

definition clamp_limits :: "VehicleData \<Rightarrow> VehicleData" where
  "clamp_limits v =
     v\<lparr>rpm := max 0 (min 8000 (rpm v)),
       speed_kmh := max 0 (min 300 (speed_kmh v)),
       clutch_value := max 0 (min 100 (clutch_value v)),
       break_value := max 0 (min 100 (break_value v)),
       accel_value := max 0 (min 100 (accel_value v)),
       steering_wheel_angle := max (- 780) (min 780 (steering_wheel_angle v))\<rparr>"

text \<open>
  \<open>simulate_vehicle_data\<close>, called at wall-clock time \<open>now\<close> with the draws \<open>u\<close>. The result
  is the exception that left the call, if any, and the state the call left behind: an
  exception does not undo the assignments made before it.
\<close>

definition simulate_vehicle_data ::
  "real \<Rightarrow> draws \<Rightarrow> ControlHandler \<Rightarrow> py_error option \<times> ControlHandler" where
  "simulate_vehicle_data now u h =
     (if \<not> simulation_enabled h \<or> \<not> is_running h \<or> is_paused h then (None, h)
      else
        let delta_time = now - last_update_time h;
            h1 = h\<lparr>last_update_time := now\<rparr>
        in if vehicle_started (vehicle_data h1) then
             (let v1 = rpm_simulation delta_time (vehicle_data h1)
              in case speed_simulation delta_time v1 of
                   Inl e \<Rightarrow> (Some e, h1\<lparr>vehicle_data := v1\<rparr>)
                 | Inr v2 \<Rightarrow>
                     (None, h1\<lparr>vehicle_data :=
                        clamp_limits (pose_and_rates u (odometer_update delta_time v2))\<rparr>))
           else (None, h1\<lparr>vehicle_data := clamp_limits (vehicle_data h1)\<rparr>))"

subsection \<open>The command surface\<close>

definition set_gear :: "string \<Rightarrow> ControlHandler \<Rightarrow> ControlHandler" where
  "set_gear g h =
     (if vehicle_started (vehicle_data h) \<or> g \<in> set [''P'', ''N'']
      then h\<lparr>vehicle_data := (vehicle_data h)\<lparr>gear := g\<rparr>,
             log_records := log_records h @ [(INFO, ''Gear set to: '' @ g @ ''.'')]\<rparr>
      else h\<lparr>log_records :=
               log_records h @ [(WARNING, ''Cannot set gear '' @ g @ '': Vehicle is off.'')]\<rparr>)"

text \<open>\<open>str(None)\<close> is \<open>"None"\<close> in the formatted message.\<close>

definition str_of_name :: "string option \<Rightarrow> string" where
  "str_of_name name = (case name of None \<Rightarrow> ''None'' | Some s \<Rightarrow> s)"

definition start_maneuver :: "string option \<Rightarrow> ControlHandler \<Rightarrow> ControlHandler" where
  "start_maneuver name h =
     (if vehicle_started (vehicle_data h)
      then h\<lparr>vehicle_data :=
               (vehicle_data h)\<lparr>maneuver_active := True, maneuver_name := Assigned name\<rparr>,
             log_records := log_records h @ [(INFO, ''Maneuver started: '' @ str_of_name name)]\<rparr>
      else h\<lparr>log_records :=
               log_records h @ [(WARNING, ''Cannot start maneuver: Vehicle is off.'')]\<rparr>)"

definition stop_maneuver :: "ControlHandler \<Rightarrow> ControlHandler" where
  "stop_maneuver h =
     h\<lparr>vehicle_data :=
         (vehicle_data h)\<lparr>maneuver_active := False, maneuver_name := Assigned None\<rparr>,
       log_records := log_records h @ [(INFO, ''Maneuver stopped.'')]\<rparr>"

text \<open>
  The dictionary \<open>reset_vehicle\<close> and the dataclass constructor receive: each of the
  nineteen dataclass fields is named (\<open>Some\<close>) or not. A key that is no dataclass
  field would become a fresh attribute under \<open>setattr\<close>, which nothing modelled here
  reads (\<open>maneuver_name\<close> is overwritten on line 121), and it makes the constructor
  raise TypeError; such keys and values of another type than the field's are outside
  this type.
\<close>

record vd_dict =
  d_rpm :: "real option"
  d_speed_kmh :: "real option"
  d_odometer_km :: "real option"
  d_gear :: "string option"
  d_pos_x_m :: "real option"
  d_pos_y_m :: "real option"
  d_pos_z_m :: "real option"
  d_angle_roll_deg :: "real option"
  d_angle_pitch_deg :: "real option"
  d_angle_yaw_deg :: "real option"
  d_roll_rate_degs :: "real option"
  d_pitch_rate_degs :: "real option"
  d_yaw_rate_degs :: "real option"
  d_clutch_value :: "real option"
  d_break_value :: "real option"
  d_accel_value :: "real option"
  d_steering_wheel_angle :: "real option"
  d_vehicle_started :: "bool option"
  d_maneuver_active :: "bool option"

definition empty_dict :: vd_dict where
  "empty_dict =
     \<lparr>d_rpm = None, d_speed_kmh = None, d_odometer_km = None, d_gear = None,
      d_pos_x_m = None, d_pos_y_m = None, d_pos_z_m = None,
      d_angle_roll_deg = None, d_angle_pitch_deg = None, d_angle_yaw_deg = None,
      d_roll_rate_degs = None, d_pitch_rate_degs = None, d_yaw_rate_degs = None,
      d_clutch_value = None, d_break_value = None, d_accel_value = None,
      d_steering_wheel_angle = None, d_vehicle_started = None, d_maneuver_active = None\<rparr>"

text \<open>\<open>for key, value in d.items(): setattr(vehicle_data, key, value)\<close>.\<close>

definition setattrs :: "vd_dict \<Rightarrow> VehicleData \<Rightarrow> VehicleData" where
  "setattrs d v =
     v\<lparr>rpm := get_or (d_rpm d) (rpm v),
       speed_kmh := get_or (d_speed_kmh d) (speed_kmh v),
       odometer_km := get_or (d_odometer_km d) (odometer_km v),
       gear := get_or (d_gear d) (gear v),
       pos_x_m := get_or (d_pos_x_m d) (pos_x_m v),
       pos_y_m := get_or (d_pos_y_m d) (pos_y_m v),
       pos_z_m := get_or (d_pos_z_m d) (pos_z_m v),
       angle_roll_deg := get_or (d_angle_roll_deg d) (angle_roll_deg v),
       angle_pitch_deg := get_or (d_angle_pitch_deg d) (angle_pitch_deg v),
       angle_yaw_deg := get_or (d_angle_yaw_deg d) (angle_yaw_deg v),
       roll_rate_degs := get_or (d_roll_rate_degs d) (roll_rate_degs v),
       pitch_rate_degs := get_or (d_pitch_rate_degs d) (pitch_rate_degs v),
       yaw_rate_degs := get_or (d_yaw_rate_degs d) (yaw_rate_degs v),
       clutch_value := get_or (d_clutch_value d) (clutch_value v),
       break_value := get_or (d_break_value d) (break_value v),
       accel_value := get_or (d_accel_value d) (accel_value v),
       steering_wheel_angle := get_or (d_steering_wheel_angle d) (steering_wheel_angle v),
       vehicle_started := get_or (d_vehicle_started d) (vehicle_started v),
       maneuver_active := get_or (d_maneuver_active d) (maneuver_active v)\<rparr>"

text \<open>\<open>VehicleData(**d)\<close>: a field the dictionary does not name takes its default.\<close>

definition VehicleData_of_dict :: "vd_dict \<Rightarrow> VehicleData" where
  "VehicleData_of_dict d = setattrs d VehicleData_default"

definition reset_vehicle :: "real \<Rightarrow> vd_dict \<Rightarrow> ControlHandler \<Rightarrow> ControlHandler" where
  "reset_vehicle now initial_data_dict h =
     h\<lparr>vehicle_data :=
         (setattrs initial_data_dict (vehicle_data h))
           \<lparr>vehicle_started := False, maneuver_active := False,
            maneuver_name := Assigned None\<rparr>,
       is_running := True,
       is_paused := False,
       last_update_time := now,
       log_records := log_records h @ [(INFO, ''Vehicle reset performed.'')]\<rparr>"

definition toggle_pause :: "ControlHandler \<Rightarrow> ControlHandler" where
  "toggle_pause h =
     h\<lparr>is_paused := \<not> is_paused h,
       log_records := log_records h @
         [(INFO, ''Simulation '' @ (if \<not> is_paused h then ''paused'' else ''resumed'') @ ''.'')]\<rparr>"

definition stop_simulation :: "ControlHandler \<Rightarrow> ControlHandler" where
  "stop_simulation h =
     h\<lparr>is_running := False,
       is_paused := False,
       vehicle_data := (vehicle_data h)\<lparr>vehicle_started := False, rpm := 0, speed_kmh := 0,
                                        gear := ''P''\<rparr>,
       log_records := log_records h @ [(INFO, ''Simulation stopped.'')]\<rparr>"

definition set_clutch_value :: "real \<Rightarrow> ControlHandler \<Rightarrow> ControlHandler" where
  "set_clutch_value x h = h\<lparr>vehicle_data := (vehicle_data h)\<lparr>clutch_value := x\<rparr>\<rparr>"

definition set_break_value :: "real \<Rightarrow> ControlHandler \<Rightarrow> ControlHandler" where
  "set_break_value x h = h\<lparr>vehicle_data := (vehicle_data h)\<lparr>break_value := x\<rparr>\<rparr>"

definition set_accel_value :: "real \<Rightarrow> ControlHandler \<Rightarrow> ControlHandler" where
  "set_accel_value x h = h\<lparr>vehicle_data := (vehicle_data h)\<lparr>accel_value := x\<rparr>\<rparr>"

definition set_steering_wheel_angle :: "real \<Rightarrow> ControlHandler \<Rightarrow> ControlHandler" where
  "set_steering_wheel_angle x h =
     h\<lparr>vehicle_data := (vehicle_data h)\<lparr>steering_wheel_angle := x\<rparr>\<rparr>"

definition toggle_vehicle_power :: "ControlHandler \<Rightarrow> ControlHandler" where
  "toggle_vehicle_power h =
     (let on = \<not> vehicle_started (vehicle_data h);
          v1 = (vehicle_data h)\<lparr>vehicle_started := on\<rparr>;
          v2 = (if \<not> on then v1\<lparr>rpm := 0, speed_kmh := 0, gear := ''P''\<rparr> else v1)
      in h\<lparr>vehicle_data := v2,
            log_records := log_records h @
              [(INFO, ''Vehicle power toggled to: '' @ (if on then ''ON'' else ''OFF'') @ ''.'')]\<rparr>)"

text \<open>\<open>ControlHandler(vehicle_data, simulation_enabled)\<close>, constructed at time \<open>now\<close>.\<close>

definition ControlHandler_init :: "real \<Rightarrow> VehicleData \<Rightarrow> bool \<Rightarrow> ControlHandler" where
  "ControlHandler_init now v enabled =
     \<lparr>vehicle_data = v, simulation_enabled = enabled, is_running = True, is_paused = False,
      last_update_time = now, log_records = [(INFO, ''ControlHandler initialized.'')]\<rparr>"

text \<open>
  A sequence of calls of the step, each made \<open>dt\<close> seconds after the handler's
  last-update time. The driver keeps the state an exception leaves behind.
\<close>

fun simulate_steps :: "(real \<times> draws) list \<Rightarrow> ControlHandler \<Rightarrow> ControlHandler" where
  "simulate_steps [] h = h"
| "simulate_steps ((dt, u) # rest) h =
     simulate_steps rest (snd (simulate_vehicle_data (last_update_time h + dt) u h))"

section \<open>Configuration files (core/data\_loader.py, main.py)\<close>

text \<open>
  The configuration dictionary. \<open>cfg_vehicle_data\<close> is \<open>None\<close> when the document has no
  \<open>"vehicle_data"\<close> key.
\<close>

record config =
  refresh_rate :: int
  cfg_simulation_enabled :: bool
  debug_mode :: bool
  cfg_vehicle_data :: "vd_dict option"

definition get_default_config :: config where
  "get_default_config =
     \<lparr>refresh_rate = 1000, cfg_simulation_enabled = True, debug_mode = False,
      cfg_vehicle_data = Some
        \<lparr>d_rpm = Some 1500, d_speed_kmh = Some 45, d_odometer_km = Some 0, d_gear = Some ''N'',
         d_pos_x_m = Some 3400, d_pos_y_m = Some 3400, d_pos_z_m = Some 3400,
         d_angle_roll_deg = Some 0, d_angle_pitch_deg = Some 0, d_angle_yaw_deg = Some 0,
         d_roll_rate_degs = Some (34 / 10), d_pitch_rate_degs = Some (34 / 10),
         d_yaw_rate_degs = Some (1667 / 10),
         d_clutch_value = Some 0, d_break_value = Some 0, d_accel_value = Some (46 / 10),
         d_steering_wheel_angle = Some 60,
         d_vehicle_started = Some False, d_maneuver_active = Some False\<rparr>\<rparr>"

record ConfigManager =
  config_file :: string
  default_config :: config

definition ConfigManager_init :: "string \<Rightarrow> ConfigManager" where
  "ConfigManager_init config_file_path =
     \<lparr>config_file = config_file_path, default_config = get_default_config\<rparr>"

text \<open>
  What the code sees of the file system. A path that exists holds a JSON document
  (\<open>json.load\<close> returns it; \<open>json.dump\<close> followed by \<open>json.load\<close> is taken to return an
  equal dictionary), or text that \<open>json.load\<close> rejects with a JSONDecodeError of the
  given message, or it cannot be opened for reading at all (a directory, a permission),
  the exception's message given. \<open>write_error\<close> names the paths that cannot be opened
  for writing, with the exception's message. Directories are not modelled further:
  \<open>os.makedirs(name, exist_ok=True)\<close> succeeds unless \<open>name\<close> is the empty string, for
  which it raises FileNotFoundError.
\<close>

datatype file_content = Document config | Malformed string | Unreadable string

record world =
  files :: "string \<rightharpoonup> file_content"
  write_error :: "string \<rightharpoonup> string"
  fs_log :: "log_record list"

text \<open>\<open>os.path.dirname\<close> (POSIX): up to the last slash, trailing slashes stripped
  unless only slashes remain.\<close>

definition dirname :: "string \<Rightarrow> string" where
  "dirname p =
     (let head = rev (dropWhile (\<lambda>c. c \<noteq> CHR ''/'') (rev p))
      in if head \<noteq> [] \<and> \<not> list_all (\<lambda>c. c = CHR ''/'') head
         then rev (dropWhile (\<lambda>c. c = CHR ''/'') (rev head))
         else head)"

text \<open>\<open>file_path or self.config_file\<close>: \<open>None\<close> and the empty string are falsy.\<close>

definition path_or :: "string option \<Rightarrow> string \<Rightarrow> string" where
  "path_or file_path dflt =
     (case file_path of None \<Rightarrow> dflt | Some p \<Rightarrow> if p = [] then dflt else p)"

text \<open>
  \<open>save_config\<close>. \<open>os.makedirs\<close> is called outside the \<open>try\<close>, so its exception leaves
  the function; a failure to open or write the file is logged and swallowed.
\<close>

definition save_config ::
  "ConfigManager \<Rightarrow> config \<Rightarrow> string option \<Rightarrow> world \<Rightarrow> py_error option \<times> world" where
  "save_config cm cfg file_path w =
     (let cf = path_or file_path (config_file cm)
      in if dirname cf = [] then (Some FileNotFoundError, w)
         else case write_error w cf of
                None \<Rightarrow>
                  (None, w\<lparr>files := (files w)(cf \<mapsto> Document cfg),
                           fs_log := fs_log w @ [(INFO, ''Configuration saved to '' @ cf)]\<rparr>)
              | Some e \<Rightarrow>
                  (None, w\<lparr>fs_log := fs_log w @
                      [(ERROR, ''Error saving configuration to '' @ cf @ '': '' @ e)]\<rparr>))"

text \<open>
  \<open>load_config\<close>. The result is the exception that left the call (\<open>Inl\<close>) or the
  dictionary returned (\<open>Inr\<close>), and the world afterwards. When the file is missing, line
  88 calls \<open>self.save_config(self.default_config)\<close> without a path.
\<close>

definition load_config ::
  "ConfigManager \<Rightarrow> string option \<Rightarrow> world \<Rightarrow> (py_error + config) \<times> world" where
  "load_config cm file_path w =
     (let cf = path_or file_path (config_file cm)
      in case files w cf of
           None \<Rightarrow>
             (let w1 = w\<lparr>fs_log := fs_log w @
                    [(WARNING, ''Config file '' @ cf @
                        '' not found. Creating with default values.'')]\<rparr>
              in if dirname cf = [] then (Inl FileNotFoundError, w1)
                 else case save_config cm (default_config cm) None w1 of
                        (Some e, w2) \<Rightarrow> (Inl e, w2)
                      | (None, w2) \<Rightarrow> (Inr (default_config cm), w2))
         | Some (Document cfg) \<Rightarrow>
             (Inr cfg, w\<lparr>fs_log := fs_log w @ [(INFO, ''Configuration loaded from '' @ cf)]\<rparr>)
         | Some (Malformed e) \<Rightarrow>
             (Inr (default_config cm),
              w\<lparr>fs_log := fs_log w @
                  [(ERROR, ''Error parsing config file '' @ cf @ '': '' @ e @
                      ''. Using default configuration.'')]\<rparr>)
         | Some (Unreadable e) \<Rightarrow>
             (Inr (default_config cm),
              w\<lparr>fs_log := fs_log w @
                  [(ERROR, ''Unexpected error loading config from '' @ cf @ '': '' @ e @
                      ''. Using default configuration.'')]\<rparr>))"

text \<open>The dictionary \<open>save_config_dialog\<close> builds from the vehicle data (main.py, 530--551).\<close>

definition vehicle_data_dict :: "VehicleData \<Rightarrow> vd_dict" where
  "vehicle_data_dict v =
     \<lparr>d_rpm = Some (rpm v), d_speed_kmh = Some (speed_kmh v),
      d_odometer_km = Some (odometer_km v), d_gear = Some (gear v),
      d_pos_x_m = Some (pos_x_m v), d_pos_y_m = Some (pos_y_m v), d_pos_z_m = Some (pos_z_m v),
      d_angle_roll_deg = Some (angle_roll_deg v), d_angle_pitch_deg = Some (angle_pitch_deg v),
      d_angle_yaw_deg = Some (angle_yaw_deg v),
      d_roll_rate_degs = Some (roll_rate_degs v), d_pitch_rate_degs = Some (pitch_rate_degs v),
      d_yaw_rate_degs = Some (yaw_rate_degs v),
      d_clutch_value = Some (clutch_value v), d_break_value = Some (break_value v),
      d_accel_value = Some (accel_value v),
      d_steering_wheel_angle = Some (steering_wheel_angle v),
      d_vehicle_started = Some (vehicle_started v),
      d_maneuver_active = Some (maneuver_active v)\<rparr>"

section \<open>Specification-level definitions\<close>

subsection \<open>The drivetrain law in the words of the specification\<close>

text \<open>
  Written from the specification's sentences (section 4.1, items 1 and 2), to be compared
  with \<open>rpm_simulation\<close> and \<open>speed_simulation\<close>: "capped at", "floored at", the
  driving gears D, R, L and 1 to 6, rounding last.
\<close>

definition capped_at :: "real \<Rightarrow> real \<Rightarrow> real" where
  "capped_at hi x = (if hi < x then hi else x)"

definition floored_at :: "real \<Rightarrow> real \<Rightarrow> real" where
  "floored_at lo x = (if x < lo then lo else x)"

definition is_driving_gear :: "string \<Rightarrow> bool" where
  "is_driving_gear g \<longleftrightarrow>
     g = ''D'' \<or> g = ''R'' \<or> g = ''L'' \<or>
     g = ''1'' \<or> g = ''2'' \<or> g = ''3'' \<or> g = ''4'' \<or> g = ''5'' \<or> g = ''6''"

text \<open>The value each law reaches before it is rounded.\<close>

definition rpm_before_rounding :: "real \<Rightarrow> VehicleData \<Rightarrow> real" where
  "rpm_before_rounding dt v =
     (if accel_value v > 0 then capped_at 8000 (rpm v + accel_value v * 5 * dt)
      else if break_value v > 0 then floored_at 0 (rpm v - break_value v * 2 * dt)
      else floored_at 0 (rpm v - 100 * dt))"

definition speed_before_rounding :: "real \<Rightarrow> VehicleData \<Rightarrow> real" where
  "speed_before_rounding dt v =
     (if accel_value v > 0 \<and> break_value v = 0 \<and> is_driving_gear (gear v)
      then capped_at 300 (speed_kmh v + (accel_value v / 10) * dt * 5)
      else if break_value v > 0
      then floored_at 0 (speed_kmh v - (break_value v / 5) * dt * 5)
      else if is_driving_gear (gear v) \<and> speed_kmh v > 0
      then floored_at 0 (speed_kmh v - 5 * dt)
      else if gear v = ''N'' \<or> gear v = ''P'' then 0
      else speed_kmh v)"

definition rpm_law :: "real \<Rightarrow> VehicleData \<Rightarrow> real" where
  "rpm_law dt v = py_round (rpm_before_rounding dt v) 0"

definition speed_law :: "real \<Rightarrow> VehicleData \<Rightarrow> real" where
  "speed_law dt v = py_round (speed_before_rounding dt v) 1"

text \<open>
  "Rounded to a whole unit", "rounded to 1 decimal", said without the code's \<open>round\<close>:
  \<open>y\<close> is \<open>x\<close> rounded to \<open>ndigits\<close> decimals when \<open>y\<close> is a whole multiple of
  \<open>10 ^ (- ndigits)\<close> and lies within half such a unit of \<open>x\<close>, so that no multiple is
  nearer to \<open>x\<close>.
\<close>

definition rounded_to :: "nat \<Rightarrow> real \<Rightarrow> real \<Rightarrow> bool" where
  "rounded_to ndigits x y \<longleftrightarrow>
     y * 10 ^ ndigits = of_int \<lfloor>y * 10 ^ ndigits\<rfloor> \<and> \<bar>y - x\<bar> * 10 ^ ndigits \<le> 1 / 2"

subsection \<open>A value that round(x, 3) leaves as it is\<close>

definition three_decimals :: "real \<Rightarrow> bool" where
  "three_decimals x \<longleftrightarrow> py_round x 3 = x"

subsection \<open>A dictionary that names every range-checked field with a value in range\<close>

definition named_within :: "real \<Rightarrow> real \<Rightarrow> real option \<Rightarrow> bool" where
  "named_within lo hi entry = (case entry of None \<Rightarrow> False | Some x \<Rightarrow> lo \<le> x \<and> x \<le> hi)"

definition dict_in_limits :: "vd_dict \<Rightarrow> bool" where
  "dict_in_limits d \<longleftrightarrow>
     named_within 0 8000 (d_rpm d) \<and>
     named_within 0 300 (d_speed_kmh d) \<and>
     named_within (- 780) 780 (d_steering_wheel_angle d) \<and>
     named_within 0 100 (d_clutch_value d) \<and>
     named_within 0 100 (d_break_value d) \<and>
     named_within 0 100 (d_accel_value d)"

subsection \<open>Equality of two vehicle data records\<close>

text \<open>
  The \<open>__eq__\<close> that \<open>@dataclass\<close> generates for \<open>VehicleData\<close>: the nineteen declared
  fields, compared in order. \<open>maneuver_name\<close> is not among them.
\<close>

definition dataclass_eq :: "VehicleData \<Rightarrow> VehicleData \<Rightarrow> bool" where
  "dataclass_eq a b \<longleftrightarrow>
     rpm a = rpm b \<and> speed_kmh a = speed_kmh b \<and> odometer_km a = odometer_km b \<and>
     gear a = gear b \<and>
     pos_x_m a = pos_x_m b \<and> pos_y_m a = pos_y_m b \<and> pos_z_m a = pos_z_m b \<and>
     angle_roll_deg a = angle_roll_deg b \<and> angle_pitch_deg a = angle_pitch_deg b \<and>
     angle_yaw_deg a = angle_yaw_deg b \<and>
     roll_rate_degs a = roll_rate_degs b \<and> pitch_rate_degs a = pitch_rate_degs b \<and>
     yaw_rate_degs a = yaw_rate_degs b \<and>
     clutch_value a = clutch_value b \<and> break_value a = break_value b \<and>
     accel_value a = accel_value b \<and> steering_wheel_angle a = steering_wheel_angle b \<and>
     vehicle_started a = vehicle_started b \<and> maneuver_active a = maneuver_active b"

section \<open>Example inputs\<close>

text \<open>Concrete inputs at which the properties below are evaluated.\<close>

definition sample_draws :: draws where
  "sample_draws =
     \<lparr>u_pos_x = 1 / 100, u_pos_y = - 1 / 50, u_pos_z = 0, u_roll = 1, u_pitch = - 2, u_yaw = 90,
      u_roll_rate = 1 / 2, u_pitch_rate = - 1 / 2, u_yaw_rate = 5\<rparr>"

text \<open>The handler of a freshly started application, paused.\<close>

definition paused_handler :: ControlHandler where
  "paused_handler =
     toggle_pause (ControlHandler_init 0
       (VehicleData_of_dict (get_or (cfg_vehicle_data get_default_config) empty_dict)) True)"

text \<open>
  A handler over \<open>VehicleData(vehicle_started=True, maneuver_active=True)\<close>, as main.py
  builds it from a configuration saved while a maneuver was running, after
  \<open>set_accel_value(150.0)\<close>.
\<close>

definition unnamed_maneuver_handler :: ControlHandler where
  "unnamed_maneuver_handler =
     set_accel_value 150 (ControlHandler_init 0
       (VehicleData_of_dict
          (empty_dict\<lparr>d_vehicle_started := Some True, d_maneuver_active := Some True\<rparr>)) True)"

text \<open>The scenario state of the specification, in a handler created at time 0.\<close>

definition scenario_handler :: ControlHandler where
  "scenario_handler =
     ControlHandler_init 0
       (VehicleData_default\<lparr>gear := ''D'', accel_value := 50, vehicle_started := True\<rparr>) True"

text \<open>A started vehicle under way: gear D, 120 km/h, accelerator at 80.\<close>

definition cruising_handler :: ControlHandler where
  "cruising_handler =
     ControlHandler_init 0
       (VehicleData_default\<lparr>rpm := 3000, speed_kmh := 120, gear := ''D'', accel_value := 80,
          steering_wheel_angle := 15, vehicle_started := True\<rparr>) True"

definition sharp_turn_handler :: ControlHandler where
  "sharp_turn_handler = start_maneuver (Some ''Sharp Turn'') cruising_handler"

text \<open>
  A vehicle reset to a speed with two decimals, switched on, and a maneuver started
  without a name: \<open>start_maneuver()\<close>.
\<close>

definition unnamed_start_handler :: ControlHandler where
  "unnamed_start_handler =
     start_maneuver None
       (toggle_vehicle_power
          (reset_vehicle 0 (empty_dict\<lparr>d_speed_kmh := Some (4557 / 100)\<rparr>)
             (ControlHandler_init 0 VehicleData_default True)))"

text \<open>
  A handler over the vehicle data of a configuration file with \<open>"odometer_km": 0.0004\<close>,
  gear D, the accelerator at 2 and the vehicle started.
\<close>

definition fine_odometer_handler :: ControlHandler where
  "fine_odometer_handler =
     ControlHandler_init 0
       (VehicleData_of_dict
          (empty_dict\<lparr>d_odometer_km := Some (4 / 10000), d_gear := Some ''D'',
             d_accel_value := Some 2, d_vehicle_started := Some True\<rparr>)) True"

text \<open>Steps one second, then half a second and no time at all after the last update.\<close>

definition first_steps :: "(real \<times> draws) list" where
  "first_steps = [(1, sample_draws)]"

definition later_steps :: "(real \<times> draws) list" where
  "later_steps = [(1 / 2, sample_draws), (0, sample_draws)]"

text \<open>The handler of a freshly started application: vehicle off, gear N.\<close>

definition fresh_handler :: ControlHandler where
  "fresh_handler =
     ControlHandler_init 0
       (VehicleData_of_dict (get_or (cfg_vehicle_data get_default_config) empty_dict)) True"

text \<open>The dictionary \<open>{"vehicle_started": True}\<close>.\<close>

definition started_dict :: vd_dict where
  "started_dict = empty_dict\<lparr>d_vehicle_started := Some True\<rparr>"

text \<open>\<open>ConfigManager()\<close> over a file system that holds no file yet.\<close>

definition default_manager :: ConfigManager where
  "default_manager = ConfigManager_init ''data/config.json''"

definition empty_world :: world where
  "empty_world = \<lparr>files = Map.empty, write_error = Map.empty, fs_log = []\<rparr>"

section \<open>Auxiliary facts\<close>

subsection \<open>Rounding\<close>

lemma round_half_even_lower: "\<lfloor>x\<rfloor> \<le> round_half_even x"
  by (simp add: round_half_even_def Let_def)

lemma round_half_even_upper: "round_half_even x \<le> \<lfloor>x\<rfloor> + 1"
  by (simp add: round_half_even_def Let_def)

lemma round_half_even_of_int [simp]: "round_half_even (of_int k) = k"
  by (simp add: round_half_even_def Let_def)

lemma round_half_even_mono:
  assumes "x \<le> y"
  shows "round_half_even x \<le> round_half_even y"
proof (cases "\<lfloor>x\<rfloor> < \<lfloor>y\<rfloor>")
  case True
  have "round_half_even x \<le> \<lfloor>x\<rfloor> + 1" by (rule round_half_even_upper)
  also have "\<dots> \<le> \<lfloor>y\<rfloor>" using True by simp
  also have "\<dots> \<le> round_half_even y" by (rule round_half_even_lower)
  finally show ?thesis .
next
  case False
  with assms have eq: "\<lfloor>x\<rfloor> = \<lfloor>y\<rfloor>"
    by (simp add: floor_mono order_antisym)
  show ?thesis
    using assms eq by (auto simp: round_half_even_def Let_def)
qed

lemma py_round_mono: "x \<le> y \<Longrightarrow> py_round x n \<le> py_round y n"
  by (simp add: py_round_def round_half_even_mono divide_right_mono)

lemma py_round_grid: "py_round (of_int k / 10 ^ n) n = of_int k / 10 ^ n"
  by (simp add: py_round_def)

lemma py_round_of_int: "py_round (of_int k) n = of_int k"
proof -
  have "py_round (of_int (k * 10 ^ n) / 10 ^ n) n = of_int (k * 10 ^ n) / 10 ^ n"
    by (rule py_round_grid)
  then show ?thesis by simp
qed

lemma py_round_ge: "of_int k \<le> x \<Longrightarrow> of_int k \<le> py_round x n"
  using py_round_mono [of "of_int k" x n] by (simp add: py_round_of_int)

lemma py_round_le: "x \<le> of_int k \<Longrightarrow> py_round x n \<le> of_int k"
  using py_round_mono [of x "of_int k" n] by (simp add: py_round_of_int)

lemma py_round_nonneg: "0 \<le> x \<Longrightarrow> 0 \<le> py_round x n"
  using py_round_ge [of 0 x n] by simp

lemma py_round_le_8000: "x \<le> 8000 \<Longrightarrow> py_round x n \<le> 8000"
  using py_round_le [of x 8000 n] by simp

lemma py_round_le_300: "x \<le> 300 \<Longrightarrow> py_round x n \<le> 300"
  using py_round_le [of x 300 n] by simp

lemma round_half_even_near: "\<bar>of_int (round_half_even z) - z\<bar> \<le> 1 / 2"
proof -
  have "of_int \<lfloor>z\<rfloor> \<le> z" "z < of_int \<lfloor>z\<rfloor> + 1"
    by linarith+
  then show ?thesis
    by (auto simp: round_half_even_def Let_def abs_le_iff)
qed

lemma py_round_rounded_to: "rounded_to n x (py_round x n)"
proof -
  have pos: "(0::real) < 10 ^ n" by simp
  have whole: "py_round x n * 10 ^ n = of_int (round_half_even (x * 10 ^ n))"
    by (simp add: py_round_def)
  have "\<bar>py_round x n - x\<bar> * 10 ^ n = \<bar>(py_round x n - x) * 10 ^ n\<bar>"
    by (simp add: abs_mult)
  also have "(py_round x n - x) * 10 ^ n = of_int (round_half_even (x * 10 ^ n)) - x * 10 ^ n"
    by (simp add: left_diff_distrib whole)
  also have "\<bar>\<dots>\<bar> \<le> 1 / 2"
    by (rule round_half_even_near)
  finally have near: "\<bar>py_round x n - x\<bar> * 10 ^ n \<le> 1 / 2" .
  show ?thesis
    unfolding rounded_to_def using near by (simp add: whole)
qed

lemma clamp_whole:
  fixes y :: real
  assumes "y * 10 ^ n = of_int \<lfloor>y * 10 ^ n\<rfloor>"
  shows "max 0 (min (of_int hi) y) * 10 ^ n = of_int \<lfloor>max 0 (min (of_int hi) y) * 10 ^ n\<rfloor>"
proof -
  have "max 0 (min (of_int hi) y) = 0 \<or> max 0 (min (of_int hi) y) = of_int hi
      \<or> max 0 (min (of_int hi) y) = y"
    by (auto simp: max_def min_def)
  moreover have "(of_int hi :: real) * 10 ^ n = of_int \<lfloor>(of_int hi :: real) * 10 ^ n\<rfloor>"
  proof -
    have "(of_int hi :: real) * 10 ^ n = of_int (hi * 10 ^ n)" by simp
    then show ?thesis by (simp only: floor_of_int)
  qed
  ultimately show ?thesis
    using assms by (elim disjE) simp_all
qed

subsection \<open>The three ways through an effective step\<close>

lemma simulate_not_started:
  assumes "simulation_enabled h" "is_running h" "\<not> is_paused h"
    and "\<not> vehicle_started (vehicle_data h)"
  shows "simulate_vehicle_data now u h =
           (None, h\<lparr>vehicle_data := clamp_limits (vehicle_data h), last_update_time := now\<rparr>)"
  using assms by (simp add: simulate_vehicle_data_def Let_def)

lemma simulate_started_returns:
  assumes "simulation_enabled h" "is_running h" "\<not> is_paused h"
    and "vehicle_started (vehicle_data h)"
    and "speed_simulation (now - last_update_time h)
           (rpm_simulation (now - last_update_time h) (vehicle_data h)) = Inr v2"
  shows "simulate_vehicle_data now u h =
           (None, h\<lparr>vehicle_data :=
                      clamp_limits (pose_and_rates u
                        (odometer_update (now - last_update_time h) v2)),
                    last_update_time := now\<rparr>)"
  using assms by (simp add: simulate_vehicle_data_def Let_def)

lemma simulate_started_raises:
  assumes "simulation_enabled h" "is_running h" "\<not> is_paused h"
    and "vehicle_started (vehicle_data h)"
    and "speed_simulation (now - last_update_time h)
           (rpm_simulation (now - last_update_time h) (vehicle_data h)) = Inl e"
  shows "simulate_vehicle_data now u h =
           (Some e, h\<lparr>vehicle_data := rpm_simulation (now - last_update_time h) (vehicle_data h),
                      last_update_time := now\<rparr>)"
  using assms by (simp add: simulate_vehicle_data_def Let_def)

lemma validate_clamp_limits: "validate (clamp_limits v)"
  by (simp add: validate_def clamp_limits_def)

lemma clamp_limits_valid: "validate v \<Longrightarrow> clamp_limits v = v"
  by (simp add: validate_def clamp_limits_def)

subsection \<open>The example inputs, evaluated\<close>

lemma unnamed_maneuver_handler_data:
  "vehicle_data unnamed_maneuver_handler =
     VehicleData_default\<lparr>accel_value := 150, vehicle_started := True, maneuver_active := True\<rparr>"
  by (simp add: unnamed_maneuver_handler_def set_accel_value_def ControlHandler_init_def
      VehicleData_of_dict_def setattrs_def empty_dict_def get_or_def VehicleData_default_def)

lemma unnamed_maneuver_handler_flags:
  "simulation_enabled unnamed_maneuver_handler" "is_running unnamed_maneuver_handler"
  "\<not> is_paused unnamed_maneuver_handler" "last_update_time unnamed_maneuver_handler = 0"
  by (simp_all add: unnamed_maneuver_handler_def set_accel_value_def ControlHandler_init_def)

subsection \<open>The code's stages against the specification's law\<close>

lemma capped_at_min: "capped_at hi x = min hi x"
  by (simp add: capped_at_def min_def)

lemma floored_at_max: "floored_at lo x = max lo x"
  by (simp add: floored_at_def max_def)

lemma is_driving_gear_iff: "is_driving_gear g \<longleftrightarrow> g \<in> set driving_gears"
  by (simp add: is_driving_gear_def driving_gears_def)

lemma rpm_simulation_eq: "rpm_simulation dt v = v\<lparr>rpm := rpm_law dt v\<rparr>"
  by (simp add: rpm_simulation_def rpm_law_def rpm_before_rounding_def capped_at_min floored_at_max Let_def)

lemma speed_simulation_no_maneuver:
  "\<not> maneuver_active v \<Longrightarrow> speed_simulation dt v = Inr (v\<lparr>speed_kmh := speed_law dt v\<rparr>)"
  by (auto simp: speed_simulation_def speed_law_def speed_before_rounding_def capped_at_min floored_at_max
      is_driving_gear_def driving_gears_def Let_def)

lemma speed_law_rpm_irrelevant: "speed_law dt (v\<lparr>rpm := x\<rparr>) = speed_law dt v"
  by (auto simp: speed_law_def speed_before_rounding_def is_driving_gear_def)

lemma three_way_bounds:
  fixes r a b c hi :: real
  assumes "0 \<le> r" "r \<le> hi" "p \<longrightarrow> 0 \<le> a" "0 \<le> b" "0 \<le> c"
  shows "0 \<le> (if p then min hi (r + a) else if q then max 0 (r - b) else max 0 (r - c))
       \<and> (if p then min hi (r + a) else if q then max 0 (r - b) else max 0 (r - c)) \<le> hi"
  using assms by auto

lemma five_way_bounds:
  fixes r a b c hi :: real
  assumes "0 \<le> r" "r \<le> hi" "p \<longrightarrow> 0 \<le> a" "0 \<le> b" "0 \<le> c"
  shows "0 \<le> (if p then min hi (r + a) else if q then max 0 (r - b)
               else if q' then max 0 (r - c) else if q'' then 0 else r)
       \<and> (if p then min hi (r + a) else if q then max 0 (r - b)
               else if q' then max 0 (r - c) else if q'' then 0 else r) \<le> hi"
  using assms by auto

lemma rpm_law_limits:
  assumes "0 \<le> rpm v" "rpm v \<le> 8000" "0 \<le> dt" "0 \<le> break_value v"
  shows "0 \<le> rpm_law dt v \<and> rpm_law dt v \<le> 8000"
proof -
  let ?x = "if accel_value v > 0 then min 8000 (rpm v + accel_value v * 5 * dt)
        else if break_value v > 0 then max 0 (rpm v - break_value v * 2 * dt)
        else max 0 (rpm v - 100 * dt)"
  have a: "accel_value v > 0 \<longrightarrow> 0 \<le> accel_value v * 5 * dt"
    using assms by simp
  have b: "0 \<le> break_value v * 2 * dt" using assms by simp
  have c: "0 \<le> 100 * dt" using assms by simp
  have "0 \<le> ?x \<and> ?x \<le> 8000"
    using assms(1,2) a b c by (rule three_way_bounds)
  then show ?thesis
    unfolding rpm_law_def rpm_before_rounding_def capped_at_min floored_at_max
    using py_round_nonneg py_round_le_8000 by blast
qed

lemma speed_law_limits:
  assumes "0 \<le> speed_kmh v" "speed_kmh v \<le> 300" "0 \<le> dt" "0 \<le> break_value v"
  shows "0 \<le> speed_law dt v \<and> speed_law dt v \<le> 300"
proof -
  let ?x = "if accel_value v > 0 \<and> break_value v = 0 \<and> is_driving_gear (gear v)
        then min 300 (speed_kmh v + (accel_value v / 10) * dt * 5)
        else if break_value v > 0
        then max 0 (speed_kmh v - (break_value v / 5) * dt * 5)
        else if is_driving_gear (gear v) \<and> speed_kmh v > 0
        then max 0 (speed_kmh v - 5 * dt)
        else if gear v = ''N'' \<or> gear v = ''P'' then 0
        else speed_kmh v"
  have a: "accel_value v > 0 \<and> break_value v = 0 \<and> is_driving_gear (gear v)
      \<longrightarrow> 0 \<le> (accel_value v / 10) * dt * 5"
    using assms by simp
  have b: "0 \<le> (break_value v / 5) * dt * 5" using assms by simp
  have c: "0 \<le> 5 * dt" using assms by simp
  have "0 \<le> ?x \<and> ?x \<le> 300"
    using assms(1,2) a b c by (rule five_way_bounds)
  then show ?thesis
    unfolding speed_law_def speed_before_rounding_def capped_at_min floored_at_max
    using py_round_nonneg py_round_le_300 by blast
qed

lemma clamp_limits_fields:
  "rpm (clamp_limits v) = max 0 (min 8000 (rpm v))"
  "speed_kmh (clamp_limits v) = max 0 (min 300 (speed_kmh v))"
  "clutch_value (clamp_limits v) = max 0 (min 100 (clutch_value v))"
  "break_value (clamp_limits v) = max 0 (min 100 (break_value v))"
  "accel_value (clamp_limits v) = max 0 (min 100 (accel_value v))"
  "steering_wheel_angle (clamp_limits v) = max (- 780) (min 780 (steering_wheel_angle v))"
  "odometer_km (clamp_limits v) = odometer_km v"
  by (simp_all add: clamp_limits_def)

lemma pose_and_rates_fields:
  "rpm (pose_and_rates u v) = rpm v"
  "speed_kmh (pose_and_rates u v) = speed_kmh v"
  "clutch_value (pose_and_rates u v) = clutch_value v"
  "break_value (pose_and_rates u v) = break_value v"
  "accel_value (pose_and_rates u v) = accel_value v"
  "steering_wheel_angle (pose_and_rates u v) = steering_wheel_angle v"
  "odometer_km (pose_and_rates u v) = odometer_km v"
  by (simp_all add: pose_and_rates_def)

lemma odometer_update_fields:
  "rpm (odometer_update dt v) = rpm v"
  "speed_kmh (odometer_update dt v) = speed_kmh v"
  "clutch_value (odometer_update dt v) = clutch_value v"
  "break_value (odometer_update dt v) = break_value v"
  "accel_value (odometer_update dt v) = accel_value v"
  "steering_wheel_angle (odometer_update dt v) = steering_wheel_angle v"
  by (simp_all add: odometer_update_def)

lemmas stage_fields = clamp_limits_fields pose_and_rates_fields odometer_update_fields

lemma scenario_rpm_law:
  assumes "accel_value v = 50" "rpm v = 0"
  shows "rpm_law 1 v = 250"
  using assms by (simp add: rpm_law_def rpm_before_rounding_def capped_at_def py_round_def round_half_even_def)

lemma scenario_speed_law:
  assumes "gear v = ''D''" "accel_value v = 50" "break_value v = 0" "speed_kmh v = 0"
  shows "speed_law 1 v = 25"
  using assms
  by (simp add: speed_law_def speed_before_rounding_def is_driving_gear_def capped_at_def py_round_def round_half_even_def)

subsection \<open>The maneuver branch\<close>

lemma presets_get_catalogue:
  "presets_get (Some ''Standard Cruise'') =
     \<lparr>p_speed_kmh = Some 60, p_steering_wheel_angle = Some 0, p_break_value = None\<rparr>"
  "presets_get (Some ''Sharp Turn'') =
     \<lparr>p_speed_kmh = Some 30, p_steering_wheel_angle = Some 300, p_break_value = None\<rparr>"
  "presets_get (Some ''Emergency Stop'') =
     \<lparr>p_speed_kmh = Some 0, p_steering_wheel_angle = None, p_break_value = Some 100\<rparr>"
  by (simp_all add: presets_get_def all_maneuver_presets_def)

lemma presets_get_known:
  "map_of all_maneuver_presets name = Some p \<Longrightarrow> presets_get (Some name) = p"
  by (simp add: presets_get_def)

lemma presets_known_truthy:
  "map_of all_maneuver_presets name = Some p \<Longrightarrow> preset_truthy p"
  by (auto simp: all_maneuver_presets_def preset_truthy_def split: if_splits)

lemma presets_get_unknown:
  assumes "name \<notin> set (map (Some \<circ> fst) all_maneuver_presets)"
  shows "presets_get name = empty_preset"
proof (cases name)
  case None
  then show ?thesis by (simp add: presets_get_def)
next
  case (Some s)
  with assms have "s \<notin> fst ` set all_maneuver_presets" by auto
  then have "map_of all_maneuver_presets s = None"
    by (simp add: map_of_eq_None_iff)
  with Some show ?thesis by (simp add: presets_get_def)
qed

lemma speed_simulation_preset:
  assumes "maneuver_active v" "maneuver_name v = Assigned name" "preset_truthy (presets_get name)"
  shows "speed_simulation dt v =
     Inr (v\<lparr>speed_kmh := py_round (get_or (p_speed_kmh (presets_get name)) (speed_kmh v)) 1,
            steering_wheel_angle :=
              get_or (p_steering_wheel_angle (presets_get name)) (steering_wheel_angle v),
            break_value := get_or (p_break_value (presets_get name)) (break_value v)\<rparr>)"
  using assms by (simp add: speed_simulation_def Let_def)

lemma speed_simulation_no_preset:
  assumes "maneuver_active v" "maneuver_name v = Assigned name"
    "presets_get name = empty_preset"
  shows "speed_simulation dt v = Inr (v\<lparr>speed_kmh := py_round (speed_kmh v) 1\<rparr>)"
  using assms by (simp add: speed_simulation_def Let_def preset_truthy_def empty_preset_def)

lemma rpm_simulation_other_fields:
  "speed_kmh (rpm_simulation dt v) = speed_kmh v"
  "steering_wheel_angle (rpm_simulation dt v) = steering_wheel_angle v"
  "break_value (rpm_simulation dt v) = break_value v"
  "accel_value (rpm_simulation dt v) = accel_value v"
  "clutch_value (rpm_simulation dt v) = clutch_value v"
  "odometer_km (rpm_simulation dt v) = odometer_km v"
  "maneuver_active (rpm_simulation dt v) = maneuver_active v"
  "maneuver_name (rpm_simulation dt v) = maneuver_name v"
  by (simp_all add: rpm_simulation_eq)

lemma py_round_numerals: "py_round 0 n = 0" "py_round 60 n = 60" "py_round 30 n = 30"
  using py_round_of_int [of 0 n] py_round_of_int [of 60 n] py_round_of_int [of 30 n]
  by simp_all

text \<open>An effective step with a maneuver active whose name has been assigned.\<close>

lemma simulate_maneuver_preset:
  assumes "simulation_enabled h" "is_running h" "\<not> is_paused h"
    and "vehicle_started (vehicle_data h)" "maneuver_active (vehicle_data h)"
    and "maneuver_name (vehicle_data h) = Assigned name"
    and "preset_truthy (presets_get name)"
  shows "fst (simulate_vehicle_data now u h) = None"
    and "speed_kmh (vehicle_data (snd (simulate_vehicle_data now u h))) =
           max 0 (min 300 (py_round
             (get_or (p_speed_kmh (presets_get name)) (speed_kmh (vehicle_data h))) 1))"
    and "steering_wheel_angle (vehicle_data (snd (simulate_vehicle_data now u h))) =
           max (- 780) (min 780
             (get_or (p_steering_wheel_angle (presets_get name))
                (steering_wheel_angle (vehicle_data h))))"
    and "break_value (vehicle_data (snd (simulate_vehicle_data now u h))) =
           max 0 (min 100
             (get_or (p_break_value (presets_get name)) (break_value (vehicle_data h))))"
proof -
  let ?dt = "now - last_update_time h"
  let ?v1 = "rpm_simulation ?dt (vehicle_data h)"
  let ?p = "presets_get name"
  let ?v2 = "?v1\<lparr>speed_kmh := py_round (get_or (p_speed_kmh ?p) (speed_kmh ?v1)) 1,
            steering_wheel_angle := get_or (p_steering_wheel_angle ?p) (steering_wheel_angle ?v1),
            break_value := get_or (p_break_value ?p) (break_value ?v1)\<rparr>"
  have "speed_simulation ?dt ?v1 = Inr ?v2"
    using assms(5-7) by (intro speed_simulation_preset) (simp_all add: rpm_simulation_other_fields)
  then have step: "simulate_vehicle_data now u h =
      (None, h\<lparr>vehicle_data := clamp_limits (pose_and_rates u (odometer_update ?dt ?v2)),
               last_update_time := now\<rparr>)"
    using assms(1-4) by (intro simulate_started_returns)
  show "fst (simulate_vehicle_data now u h) = None"
    by (simp add: step)
  show "speed_kmh (vehicle_data (snd (simulate_vehicle_data now u h))) =
           max 0 (min 300 (py_round
             (get_or (p_speed_kmh (presets_get name)) (speed_kmh (vehicle_data h))) 1))"
    by (simp add: step stage_fields rpm_simulation_other_fields)
  show "steering_wheel_angle (vehicle_data (snd (simulate_vehicle_data now u h))) =
           max (- 780) (min 780
             (get_or (p_steering_wheel_angle (presets_get name))
                (steering_wheel_angle (vehicle_data h))))"
    by (simp add: step stage_fields rpm_simulation_other_fields)
  show "break_value (vehicle_data (snd (simulate_vehicle_data now u h))) =
           max 0 (min 100
             (get_or (p_break_value (presets_get name)) (break_value (vehicle_data h))))"
    by (simp add: step stage_fields rpm_simulation_other_fields)
qed

lemma simulate_maneuver_no_preset:
  assumes "simulation_enabled h" "is_running h" "\<not> is_paused h"
    and "vehicle_started (vehicle_data h)" "maneuver_active (vehicle_data h)"
    and "maneuver_name (vehicle_data h) = Assigned name"
    and "presets_get name = empty_preset"
  shows "fst (simulate_vehicle_data now u h) = None"
    and "speed_kmh (vehicle_data (snd (simulate_vehicle_data now u h))) =
           max 0 (min 300 (py_round (speed_kmh (vehicle_data h)) 1))"
    and "steering_wheel_angle (vehicle_data (snd (simulate_vehicle_data now u h))) =
           max (- 780) (min 780 (steering_wheel_angle (vehicle_data h)))"
    and "break_value (vehicle_data (snd (simulate_vehicle_data now u h))) =
           max 0 (min 100 (break_value (vehicle_data h)))"
proof -
  let ?dt = "now - last_update_time h"
  let ?v1 = "rpm_simulation ?dt (vehicle_data h)"
  let ?v2 = "?v1\<lparr>speed_kmh := py_round (speed_kmh ?v1) 1\<rparr>"
  have "speed_simulation ?dt ?v1 = Inr ?v2"
    using assms(5-7) by (intro speed_simulation_no_preset) (simp_all add: rpm_simulation_other_fields)
  then have step: "simulate_vehicle_data now u h =
      (None, h\<lparr>vehicle_data := clamp_limits (pose_and_rates u (odometer_update ?dt ?v2)),
               last_update_time := now\<rparr>)"
    using assms(1-4) by (intro simulate_started_returns)
  show "fst (simulate_vehicle_data now u h) = None"
    by (simp add: step)
  show "speed_kmh (vehicle_data (snd (simulate_vehicle_data now u h))) =
           max 0 (min 300 (py_round (speed_kmh (vehicle_data h)) 1))"
    by (simp add: step stage_fields rpm_simulation_other_fields)
  show "steering_wheel_angle (vehicle_data (snd (simulate_vehicle_data now u h))) =
           max (- 780) (min 780 (steering_wheel_angle (vehicle_data h)))"
    by (simp add: step stage_fields rpm_simulation_other_fields)
  show "break_value (vehicle_data (snd (simulate_vehicle_data now u h))) =
           max 0 (min 100 (break_value (vehicle_data h)))"
    by (simp add: step stage_fields rpm_simulation_other_fields)
qed

lemma start_maneuver_started:
  assumes "vehicle_started (vehicle_data h)"
  shows "vehicle_data (start_maneuver name h) =
           (vehicle_data h)\<lparr>maneuver_active := True, maneuver_name := Assigned name\<rparr>"
    and "simulation_enabled (start_maneuver name h) = simulation_enabled h"
    and "is_running (start_maneuver name h) = is_running h"
    and "is_paused (start_maneuver name h) = is_paused h"
    and "last_update_time (start_maneuver name h) = last_update_time h"
  using assms by (simp_all add: start_maneuver_def)

lemma simulate_limits_if_returns:
  assumes "simulation_enabled h" "is_running h" "\<not> is_paused h"
    and "fst (simulate_vehicle_data now u h) = None"
  shows "validate (vehicle_data (snd (simulate_vehicle_data now u h)))"
proof (cases "vehicle_started (vehicle_data h)")
  case False
  with assms(1-3) show ?thesis
    by (simp add: simulate_not_started validate_clamp_limits)
next
  case True
  show ?thesis
  proof (cases "speed_simulation (now - last_update_time h)
                  (rpm_simulation (now - last_update_time h) (vehicle_data h))")
    case (Inl e)
    with assms(1-3) True have "fst (simulate_vehicle_data now u h) = Some e"
      by (simp add: simulate_started_raises)
    with assms(4) show ?thesis by simp
  next
    case (Inr v2)
    with assms(1-3) True show ?thesis
      by (simp add: simulate_started_returns validate_clamp_limits)
  qed
qed

lemma simulate_limits_valid_prestate:
  assumes "validate (vehicle_data h)" "last_update_time h \<le> now"
  shows "validate (vehicle_data (snd (simulate_vehicle_data now u h)))"
proof (cases "simulation_enabled h \<and> is_running h \<and> \<not> is_paused h")
  case False
  then show ?thesis using assms(1) by (auto simp: simulate_vehicle_data_def)
next
  case True
  then have act: "simulation_enabled h" "is_running h" "\<not> is_paused h" by simp_all
  show ?thesis
  proof (cases "fst (simulate_vehicle_data now u h)")
    case None
    with act show ?thesis by (intro simulate_limits_if_returns)
  next
    case (Some e)
    have started: "vehicle_started (vehicle_data h)"
    proof (rule ccontr)
      assume "\<not> vehicle_started (vehicle_data h)"
      with act Some show False by (simp add: simulate_not_started)
    qed
    let ?dt = "now - last_update_time h"
    obtain e' where "speed_simulation ?dt (rpm_simulation ?dt (vehicle_data h)) = Inl e'"
      using act started Some
      by (cases "speed_simulation ?dt (rpm_simulation ?dt (vehicle_data h))")
        (simp_all add: simulate_started_returns)
    then have "vehicle_data (snd (simulate_vehicle_data now u h)) =
        rpm_simulation ?dt (vehicle_data h)"
      using act started by (simp add: simulate_started_raises)
    moreover have "0 \<le> rpm_law ?dt (vehicle_data h) \<and> rpm_law ?dt (vehicle_data h) \<le> 8000"
      using assms by (intro rpm_law_limits) (simp_all add: validate_def)
    ultimately show ?thesis
      using assms(1) by (simp add: rpm_simulation_eq validate_def)
  qed
qed

lemma unnamed_start_handler_data:
  "vehicle_data unnamed_start_handler =
     VehicleData_default\<lparr>speed_kmh := 4557 / 100, vehicle_started := True,
       maneuver_active := True, maneuver_name := Assigned None\<rparr>"
  by (simp add: unnamed_start_handler_def start_maneuver_def toggle_vehicle_power_def
      reset_vehicle_def ControlHandler_init_def setattrs_def empty_dict_def get_or_def
      VehicleData_default_def Let_def)

lemma unnamed_start_handler_flags:
  "simulation_enabled unnamed_start_handler" "is_running unnamed_start_handler"
  "\<not> is_paused unnamed_start_handler"
  by (simp_all add: unnamed_start_handler_def start_maneuver_def toggle_vehicle_power_def
      reset_vehicle_def ControlHandler_init_def Let_def)

subsection \<open>The odometer\<close>

lemma py_round_idem: "py_round (py_round x n) n = py_round x n"
  unfolding py_round_def [of x n] by (rule py_round_grid)

lemma speed_simulation_odometer:
  "speed_simulation dt v = Inr v2 \<Longrightarrow> odometer_km v2 = odometer_km v"
  by (auto simp: speed_simulation_def Let_def split: if_splits maneuver_attr.splits)

lemma odometer_update_grows:
  assumes "0 \<le> dt" "three_decimals (odometer_km v)"
  shows "odometer_km v \<le> odometer_km (odometer_update dt v)
       \<and> three_decimals (odometer_km (odometer_update dt v))"
proof (cases "speed_kmh v > 0")
  case False
  with assms show ?thesis by (simp add: odometer_update_def)
next
  case True
  let ?x = "odometer_km v + (speed_kmh v / 3600) * dt"
  have "0 \<le> (speed_kmh v / 3600) * dt"
    using True assms(1) by simp
  then have "odometer_km v \<le> ?x" by simp
  then have "py_round (odometer_km v) 3 \<le> py_round ?x 3"
    by (rule py_round_mono)
  then have "odometer_km v \<le> py_round ?x 3"
    using assms(2) by (simp add: three_decimals_def)
  moreover have "three_decimals (py_round ?x 3)"
    by (simp add: three_decimals_def py_round_idem)
  ultimately show ?thesis
    using True by (simp add: odometer_update_def)
qed

lemma simulate_odometer:
  assumes "0 \<le> dt" "three_decimals (odometer_km (vehicle_data h))"
  shows "odometer_km (vehicle_data h)
           \<le> odometer_km (vehicle_data (snd (simulate_vehicle_data (last_update_time h + dt) u h)))
       \<and> three_decimals
           (odometer_km (vehicle_data (snd (simulate_vehicle_data (last_update_time h + dt) u h))))"
proof (cases "simulation_enabled h \<and> is_running h \<and> \<not> is_paused h")
  case False
  then show ?thesis using assms(2) by (auto simp: simulate_vehicle_data_def)
next
  case True
  then have act: "simulation_enabled h" "is_running h" "\<not> is_paused h" by simp_all
  let ?now = "last_update_time h + dt"
  have dt: "?now - last_update_time h = dt" by simp
  show ?thesis
  proof (cases "vehicle_started (vehicle_data h)")
    case False
    with act assms(2) show ?thesis
      by (simp add: simulate_not_started clamp_limits_fields)
  next
    case True
    show ?thesis
    proof (cases "speed_simulation dt (rpm_simulation dt (vehicle_data h))")
      case (Inl e)
      with act True assms(2) show ?thesis
        using simulate_started_raises [of h ?now e u]
        by (simp add: rpm_simulation_other_fields)
    next
      case (Inr v2)
      then have "odometer_km v2 = odometer_km (vehicle_data h)"
        using speed_simulation_odometer [of dt _ v2] by (simp add: rpm_simulation_other_fields)
      with assms have "odometer_km (vehicle_data h) \<le> odometer_km (odometer_update dt v2)
          \<and> three_decimals (odometer_km (odometer_update dt v2))"
        using odometer_update_grows [of dt v2] by simp
      with act True Inr show ?thesis
        using simulate_started_returns [of h ?now v2 u]
        by (simp add: stage_fields)
    qed
  qed
qed

lemma simulate_steps_odometer:
  assumes "\<forall>(dt, u) \<in> set steps. 0 \<le> dt" "three_decimals (odometer_km (vehicle_data h))"
  shows "odometer_km (vehicle_data h) \<le> odometer_km (vehicle_data (simulate_steps steps h))
       \<and> three_decimals (odometer_km (vehicle_data (simulate_steps steps h)))"
  using assms
proof (induction steps arbitrary: h)
  case Nil
  then show ?case by simp
next
  case (Cons step steps)
  obtain dt u where step: "step = (dt, u)" by (cases step)
  let ?h' = "snd (simulate_vehicle_data (last_update_time h + dt) u h)"
  from Cons.prems step have "0 \<le> dt" by simp
  with Cons.prems(2) have one: "odometer_km (vehicle_data h) \<le> odometer_km (vehicle_data ?h')"
    and grid: "three_decimals (odometer_km (vehicle_data ?h'))"
    using simulate_odometer [of dt h u] by simp_all
  from Cons.prems(1) have rest: "\<forall>(dt, u) \<in> set steps. 0 \<le> dt" by simp
  from rest grid have "odometer_km (vehicle_data ?h') \<le> odometer_km (vehicle_data (simulate_steps steps ?h'))
      \<and> three_decimals (odometer_km (vehicle_data (simulate_steps steps ?h')))"
    by (rule Cons.IH)
  with one show ?case by (simp add: step)
qed

lemma simulate_steps_append:
  "simulate_steps (xs @ ys) h = simulate_steps ys (simulate_steps xs h)"
  by (induction xs arbitrary: h) auto

lemma fine_odometer_handler_data:
  "vehicle_data fine_odometer_handler =
     VehicleData_default\<lparr>odometer_km := 1 / 2500, gear := ''D'', accel_value := 2,
       vehicle_started := True\<rparr>"
  by (simp add: fine_odometer_handler_def ControlHandler_init_def VehicleData_of_dict_def
      setattrs_def empty_dict_def get_or_def VehicleData_default_def)

lemma fine_odometer_handler_flags:
  "simulation_enabled fine_odometer_handler" "is_running fine_odometer_handler"
  "\<not> is_paused fine_odometer_handler" "last_update_time fine_odometer_handler = 0"
  by (simp_all add: fine_odometer_handler_def ControlHandler_init_def)

subsection \<open>Reset\<close>

lemma fresh_handler_data:
  "vehicle_data fresh_handler =
     \<lparr>rpm = 1500, speed_kmh = 45, odometer_km = 0, gear = ''N'',
      pos_x_m = 3400, pos_y_m = 3400, pos_z_m = 3400,
      angle_roll_deg = 0, angle_pitch_deg = 0, angle_yaw_deg = 0,
      roll_rate_degs = 34 / 10, pitch_rate_degs = 34 / 10, yaw_rate_degs = 1667 / 10,
      clutch_value = 0, break_value = 0, accel_value = 46 / 10, steering_wheel_angle = 60,
      vehicle_started = False, maneuver_active = False, maneuver_name = Absent\<rparr>"
  by (simp add: fresh_handler_def ControlHandler_init_def VehicleData_of_dict_def
      setattrs_def get_default_config_def get_or_def VehicleData_default_def)

lemma setattrs_in_limits: "dict_in_limits d \<Longrightarrow> validate (setattrs d v)"
  by (auto simp: dict_in_limits_def named_within_def validate_def setattrs_def get_or_def
      split: option.splits)

lemma vehicle_data_dict_in_limits: "validate v \<Longrightarrow> dict_in_limits (vehicle_data_dict v)"
  by (simp add: dict_in_limits_def named_within_def validate_def vehicle_data_dict_def)

lemma validate_flags_irrelevant:
  "validate (v\<lparr>vehicle_started := a, maneuver_active := b, maneuver_name := c\<rparr>) = validate v"
  by (simp add: validate_def)

subsection \<open>Paths and configuration files\<close>

lemma dirname_examples:
  "dirname ''data/config.json'' = ''data''"
  "dirname ''other/cfg.json'' = ''other''"
  "dirname ''cfg.json'' = ''''"
  "dirname ''/home/user/saved.json'' = ''/home/user''"
  by (simp_all add: dirname_def)

lemma dirname_nonempty: "dirname p \<noteq> [] \<Longrightarrow> p \<noteq> []"
  by (auto simp: dirname_def)

text \<open>What the load policy gets right: an unparsable file gives the defaults, is logged
  and is left alone; a missing file at the manager's own path is created.\<close>

lemma load_config_unparsable:
  assumes "files w (path_or file_path (config_file cm)) = Some (Malformed e)"
  shows "fst (load_config cm file_path w) = Inr (default_config cm)"
    and "files (snd (load_config cm file_path w)) = files w"
    and "fs_log (snd (load_config cm file_path w)) =
           fs_log w @ [(ERROR, ''Error parsing config file '' @ path_or file_path (config_file cm)
              @ '': '' @ e @ ''. Using default configuration.'')]"
  using assms by (simp_all add: load_config_def Let_def)

lemma load_config_missing_own_path:
  assumes "files w (config_file cm) = None" "dirname (config_file cm) \<noteq> []"
    and "write_error w (config_file cm) = None"
  shows "fst (load_config cm None w) = Inr (default_config cm)"
    and "files (snd (load_config cm None w)) (config_file cm) =
           Some (Document (default_config cm))"
  using assms by (simp_all add: load_config_def save_config_def path_or_def Let_def)

lemma VehicleData_of_vehicle_data_dict:
  "VehicleData_of_dict (vehicle_data_dict v) = v\<lparr>maneuver_name := Absent\<rparr>"
  by (simp add: VehicleData_of_dict_def vehicle_data_dict_def setattrs_def get_or_def
      VehicleData_default_def)

lemma dataclass_eq_attr: "dataclass_eq (v\<lparr>maneuver_name := a\<rparr>) v"
  by (simp add: dataclass_eq_def)

section \<open>Properties\<close>

text \<open>
  C7. The step is a no-op when inactive: if the simulation is disabled, or the handler
  is not running, or it is paused, the call returns normally and leaves the whole
  handler state as it was: every field of the vehicle data (so no clamping happens) and
  the last-update timestamp.
\<close>

theorem simulate_inactive_noop:
  assumes "\<not> simulation_enabled h \<or> \<not> is_running h \<or> is_paused h"
  shows "simulate_vehicle_data now u h = (None, h)"
  using assms by (simp add: simulate_vehicle_data_def)

theorem simulate_inactive_noop_witness:
  "is_paused paused_handler \<and>
   simulate_vehicle_data 5 sample_draws paused_handler = (None, paused_handler)"
  using simulate_inactive_noop [of paused_handler 5 sample_draws]
  by (simp add: paused_handler_def toggle_pause_def ControlHandler_init_def)

text \<open>
  C1. The clamp invariant is claimed for every pre-step state of an enabled, running,
  unpaused handler. It fails for a started vehicle whose \<open>maneuver_active\<close> flag is set
  while \<open>maneuver_name\<close> was never assigned: the step raises AttributeError on line 48,
  before the final clamp, and the out-of-range \<open>accel_value\<close> written by the setter
  stays.
\<close>

theorem simulate_unassigned_maneuver_name:
  "simulate_vehicle_data 1 sample_draws unnamed_maneuver_handler =
     (Some AttributeError,
      unnamed_maneuver_handler
        \<lparr>vehicle_data := (vehicle_data unnamed_maneuver_handler)\<lparr>rpm := 750\<rparr>,
         last_update_time := 1\<rparr>)
   \<and> accel_value (vehicle_data (snd (simulate_vehicle_data 1 sample_draws
        unnamed_maneuver_handler))) = 150"
proof -
  let ?v = "vehicle_data unnamed_maneuver_handler"
  have r: "rpm_simulation 1 ?v = ?v\<lparr>rpm := 750\<rparr>"
    by (simp add: unnamed_maneuver_handler_data rpm_simulation_def VehicleData_default_def
        Let_def py_round_def round_half_even_def)
  have s: "speed_simulation 1 (?v\<lparr>rpm := 750\<rparr>) = Inl AttributeError"
    by (simp add: unnamed_maneuver_handler_data speed_simulation_def VehicleData_default_def)
  have "simulate_vehicle_data 1 sample_draws unnamed_maneuver_handler =
     (Some AttributeError,
      unnamed_maneuver_handler\<lparr>vehicle_data := ?v\<lparr>rpm := 750\<rparr>, last_update_time := 1\<rparr>)"
    using simulate_started_raises [of unnamed_maneuver_handler 1 AttributeError sample_draws]
      r s unnamed_maneuver_handler_flags
    by (simp add: unnamed_maneuver_handler_data)
  then show ?thesis
    by (simp add: unnamed_maneuver_handler_data)
qed

theorem simulate_unassigned_maneuver_name_witness:
  "simulation_enabled unnamed_maneuver_handler \<and> is_running unnamed_maneuver_handler
   \<and> \<not> is_paused unnamed_maneuver_handler
   \<and> vehicle_started (vehicle_data unnamed_maneuver_handler)
   \<and> maneuver_active (vehicle_data unnamed_maneuver_handler)
   \<and> maneuver_name (vehicle_data unnamed_maneuver_handler) = Absent
   \<and> fst (simulate_vehicle_data 1 sample_draws unnamed_maneuver_handler) = Some AttributeError
   \<and> \<not> validate (vehicle_data (snd (simulate_vehicle_data 1 sample_draws
          unnamed_maneuver_handler)))"
  using simulate_unassigned_maneuver_name
  by (simp add: unnamed_maneuver_handler_flags unnamed_maneuver_handler_data validate_def
      VehicleData_default_def)

text \<open>
  C2. The drivetrain update law of one effective step with the vehicle started and no
  maneuver active. The code's RPM stage yields \<open>rpm_law\<close> and its speed stage yields
  \<open>speed_law\<close>, for every state and every elapsed time; the step returns normally; the
  final clamp is then applied to both, and it changes neither when the pre-step state
  satisfies \<open>validate\<close> and the elapsed time is not negative. The rounding is there: the
  rpm the RPM stage writes is a whole number within one half of the unrounded law, the
  speed the speed stage writes is a multiple of 0.1 within 0.05 of the unrounded law;
  the post-step rpm is a whole number and the post-step speed a multiple of 0.1 in
  every case, and for a valid pre-step state and \<open>dt \<ge> 0\<close> they are the unrounded laws
  rounded. From the scenario state (gear D, accel 50, brake 0, rpm 0, speed 0) a step
  with \<open>dt = 1\<close> yields rpm 250 and speed 25.0.
\<close>

theorem drivetrain_update_law:
  assumes "simulation_enabled h" "is_running h" "\<not> is_paused h"
    and "vehicle_started (vehicle_data h)" "\<not> maneuver_active (vehicle_data h)"
  shows
    "(let v = vehicle_data h;
          dt = now - last_update_time h;
          v1 = rpm_simulation dt v;
          v' = vehicle_data (snd (simulate_vehicle_data now u h))
      in rpm v1 = rpm_law dt v
       \<and> speed_simulation dt v1 = Inr (v1\<lparr>speed_kmh := speed_law dt v\<rparr>)
       \<and> fst (simulate_vehicle_data now u h) = None
       \<and> rpm v' = max 0 (min 8000 (rpm_law dt v))
       \<and> speed_kmh v' = max 0 (min 300 (speed_law dt v))
       \<and> (validate v \<and> 0 \<le> dt \<longrightarrow> rpm v' = rpm_law dt v \<and> speed_kmh v' = speed_law dt v)
       \<and> (gear v = ''D'' \<and> accel_value v = 50 \<and> break_value v = 0 \<and> rpm v = 0
            \<and> speed_kmh v = 0 \<and> dt = 1
          \<longrightarrow> rpm v' = 250 \<and> speed_kmh v' = 25)
       \<and> rounded_to 0 (rpm_before_rounding dt v) (rpm v1)
       \<and> (case speed_simulation dt v1 of
            Inl e \<Rightarrow> False
          | Inr v2 \<Rightarrow> rounded_to 1 (speed_before_rounding dt v) (speed_kmh v2))
       \<and> rpm v' = of_int \<lfloor>rpm v'\<rfloor>
       \<and> speed_kmh v' * 10 = of_int \<lfloor>speed_kmh v' * 10\<rfloor>
       \<and> (validate v \<and> 0 \<le> dt \<longrightarrow>
            rounded_to 0 (rpm_before_rounding dt v) (rpm v')
            \<and> rounded_to 1 (speed_before_rounding dt v) (speed_kmh v')))"
proof -
  let ?v = "vehicle_data h"
  let ?dt = "now - last_update_time h"
  let ?v1 = "rpm_simulation ?dt ?v"
  let ?v2 = "?v1\<lparr>speed_kmh := speed_law ?dt ?v\<rparr>"
  let ?v' = "vehicle_data (snd (simulate_vehicle_data now u h))"
  have v1: "?v1 = ?v\<lparr>rpm := rpm_law ?dt ?v\<rparr>"
    by (rule rpm_simulation_eq)
  have rpm1: "rpm ?v1 = rpm_law ?dt ?v"
    by (simp add: v1)
  have "\<not> maneuver_active ?v1"
    using assms(5) by (simp add: v1)
  then have "speed_simulation ?dt ?v1 = Inr (?v1\<lparr>speed_kmh := speed_law ?dt ?v1\<rparr>)"
    by (rule speed_simulation_no_maneuver)
  then have sp: "speed_simulation ?dt ?v1 = Inr ?v2"
    by (simp add: v1 speed_law_rpm_irrelevant)
  have step: "simulate_vehicle_data now u h =
      (None, h\<lparr>vehicle_data := clamp_limits (pose_and_rates u (odometer_update ?dt ?v2)),
               last_update_time := now\<rparr>)"
    using assms(1-4) sp by (rule simulate_started_returns)
  have ok: "fst (simulate_vehicle_data now u h) = None"
    by (simp add: step)
  have rpm': "rpm ?v' = max 0 (min 8000 (rpm_law ?dt ?v))"
    by (simp add: step stage_fields v1)
  have speed': "speed_kmh ?v' = max 0 (min 300 (speed_law ?dt ?v))"
    by (simp add: step stage_fields)
  have exact: "rpm ?v' = rpm_law ?dt ?v \<and> speed_kmh ?v' = speed_law ?dt ?v"
    if "validate ?v" "0 \<le> ?dt"
  proof -
    have "0 \<le> rpm_law ?dt ?v \<and> rpm_law ?dt ?v \<le> 8000"
      using that by (intro rpm_law_limits) (simp_all add: validate_def)
    moreover have "0 \<le> speed_law ?dt ?v \<and> speed_law ?dt ?v \<le> 300"
      using that by (intro speed_law_limits) (simp_all add: validate_def)
    ultimately show ?thesis
      by (simp add: rpm' speed')
  qed
  have scenario: "rpm ?v' = 250 \<and> speed_kmh ?v' = 25"
    if "gear ?v = ''D''" "accel_value ?v = 50" "break_value ?v = 0" "rpm ?v = 0"
      "speed_kmh ?v = 0" "?dt = 1"
    using that by (simp add: rpm' speed' scenario_rpm_law scenario_speed_law)
  have r_rpm: "rounded_to 0 (rpm_before_rounding ?dt ?v) (rpm_law ?dt ?v)"
    unfolding rpm_law_def by (rule py_round_rounded_to)
  have r_speed: "rounded_to 1 (speed_before_rounding ?dt ?v) (speed_law ?dt ?v)"
    unfolding speed_law_def by (rule py_round_rounded_to)
  have stage_rpm: "rounded_to 0 (rpm_before_rounding ?dt ?v) (rpm ?v1)"
    using r_rpm by (simp only: rpm1)
  have stage_speed: "case speed_simulation ?dt ?v1 of
            Inl e \<Rightarrow> False
          | Inr v2 \<Rightarrow> rounded_to 1 (speed_before_rounding ?dt ?v) (speed_kmh v2)"
    using r_speed by (simp add: sp)
  have whole_rpm: "rpm ?v' = of_int \<lfloor>rpm ?v'\<rfloor>"
  proof -
    from r_rpm have "rpm_law ?dt ?v * 10 ^ 0 = of_int \<lfloor>rpm_law ?dt ?v * 10 ^ 0\<rfloor>"
      by (simp add: rounded_to_def)
    from clamp_whole [OF this, of 8000] show ?thesis
      by (simp add: rpm')
  qed
  have whole_speed: "speed_kmh ?v' * 10 = of_int \<lfloor>speed_kmh ?v' * 10\<rfloor>"
  proof -
    from r_speed have "speed_law ?dt ?v * 10 ^ 1 = of_int \<lfloor>speed_law ?dt ?v * 10 ^ 1\<rfloor>"
      by (simp add: rounded_to_def)
    from clamp_whole [OF this, of 300] show ?thesis
      by (simp add: speed')
  qed
  have rounded: "rounded_to 0 (rpm_before_rounding ?dt ?v) (rpm ?v')
            \<and> rounded_to 1 (speed_before_rounding ?dt ?v) (speed_kmh ?v')"
    if "validate ?v" "0 \<le> ?dt"
    using exact [OF that] r_rpm r_speed by (simp only:)
  show ?thesis
    unfolding Let_def
    using rpm1 sp ok rpm' speed' exact scenario stage_rpm stage_speed whole_rpm whole_speed
      rounded
    by (intro conjI impI) (simp_all only: simp_thms)
qed

theorem drivetrain_update_law_witness:
  "simulation_enabled scenario_handler \<and> is_running scenario_handler
   \<and> \<not> is_paused scenario_handler
   \<and> vehicle_started (vehicle_data scenario_handler)
   \<and> \<not> maneuver_active (vehicle_data scenario_handler)
   \<and> validate (vehicle_data scenario_handler)
   \<and> (0::real) \<le> 1 - last_update_time scenario_handler
   \<and> rpm (vehicle_data (snd (simulate_vehicle_data 1 sample_draws scenario_handler))) = 250
   \<and> speed_kmh (vehicle_data (snd (simulate_vehicle_data 1 sample_draws scenario_handler))) = 25
   \<and> (0::real) \<le> 333 / 1000 - last_update_time scenario_handler
   \<and> rpm_before_rounding (333 / 1000) (vehicle_data scenario_handler) = 333 / 4
   \<and> speed_before_rounding (333 / 1000) (vehicle_data scenario_handler) = 333 / 40
   \<and> rpm (vehicle_data (snd (simulate_vehicle_data (333 / 1000) sample_draws
        scenario_handler))) = 83
   \<and> speed_kmh (vehicle_data (snd (simulate_vehicle_data (333 / 1000) sample_draws
        scenario_handler))) = 83 / 10"
proof -
  let ?v = "vehicle_data scenario_handler"
  have v: "?v = VehicleData_default\<lparr>gear := ''D'', accel_value := 50, vehicle_started := True\<rparr>"
    and t: "last_update_time scenario_handler = 0"
    and flags: "simulation_enabled scenario_handler" "is_running scenario_handler"
      "\<not> is_paused scenario_handler"
    by (simp_all add: scenario_handler_def ControlHandler_init_def)
  have started: "vehicle_started ?v" and idle: "\<not> maneuver_active ?v"
    and valid: "validate ?v"
    by (simp_all add: v VehicleData_default_def validate_def)
  have b1: "rpm_before_rounding (333 / 1000) ?v = 333 / 4"
    by (simp add: v VehicleData_default_def rpm_before_rounding_def capped_at_def)
  have b2: "speed_before_rounding (333 / 1000) ?v = 333 / 40"
    by (simp add: v VehicleData_default_def speed_before_rounding_def capped_at_def
        is_driving_gear_def)
  have l1: "rpm_law (333 / 1000) ?v = 83"
    by (simp add: rpm_law_def b1 py_round_def round_half_even_def)
  have l2: "speed_law (333 / 1000) ?v = 83 / 10"
    by (simp add: speed_law_def b2 py_round_def round_half_even_def)
  note one = drivetrain_update_law [OF flags started idle, of 1 sample_draws, unfolded Let_def]
  note third = drivetrain_update_law [OF flags started idle, of "333 / 1000" sample_draws,
      unfolded Let_def t diff_zero]
  from one have "gear ?v = ''D'' \<and> accel_value ?v = 50 \<and> break_value ?v = 0 \<and> rpm ?v = 0
            \<and> speed_kmh ?v = 0 \<and> 1 - last_update_time scenario_handler = 1
          \<longrightarrow> rpm (vehicle_data (snd (simulate_vehicle_data 1 sample_draws scenario_handler)))
                = 250
            \<and> speed_kmh (vehicle_data (snd (simulate_vehicle_data 1 sample_draws
                scenario_handler))) = 25"
    by (elim conjE) assumption
  then have s1: "rpm (vehicle_data (snd (simulate_vehicle_data 1 sample_draws
        scenario_handler))) = 250"
    and s2: "speed_kmh (vehicle_data (snd (simulate_vehicle_data 1 sample_draws
        scenario_handler))) = 25"
    by (simp_all add: v t VehicleData_default_def)
  from third have "rpm (vehicle_data (snd (simulate_vehicle_data (333 / 1000) sample_draws
        scenario_handler))) = max 0 (min 8000 (rpm_law (333 / 1000) ?v))"
    by (elim conjE) assumption
  then have s3: "rpm (vehicle_data (snd (simulate_vehicle_data (333 / 1000) sample_draws
        scenario_handler))) = 83"
    by (simp add: l1)
  from third have "speed_kmh (vehicle_data (snd (simulate_vehicle_data (333 / 1000)
        sample_draws scenario_handler))) = max 0 (min 300 (speed_law (333 / 1000) ?v))"
    by (elim conjE) assumption
  then have s4: "speed_kmh (vehicle_data (snd (simulate_vehicle_data (333 / 1000)
        sample_draws scenario_handler))) = 83 / 10"
    by (simp add: l2)
  have d1: "(0::real) \<le> 1 - last_update_time scenario_handler"
    and d2: "(0::real) \<le> 333 / 1000 - last_update_time scenario_handler"
    by (simp_all add: t)
  show ?thesis
    by (intro conjI flags started idle valid d1 d2 s1 s2 s3 s4 b1 b2)
qed

text \<open>
  C3. Emergency Stop. For every enabled, running, unpaused handler whose vehicle is
  started, whatever its accelerator value, \<open>start_maneuver("Emergency Stop")\<close> followed by
  one step returns normally with \<open>speed_kmh = 0\<close> and \<open>break_value = 100\<close>. While a
  maneuver of the catalogue is active, the speed stage does nothing but take the
  fields the preset provides and keep the current value of those it does not (the
  speed then rounded to one decimal), whatever the elapsed time, the pedals and the
  gear; the post-step values are these, passed through the final clamp.
\<close>

theorem emergency_stop_maneuver:
  assumes "simulation_enabled h" "is_running h" "\<not> is_paused h"
    and "vehicle_started (vehicle_data h)"
  shows
    "(let r = simulate_vehicle_data now u (start_maneuver (Some ''Emergency Stop'') h);
          v' = vehicle_data (snd r)
      in fst r = None \<and> speed_kmh v' = 0 \<and> break_value v' = 100
       \<and> steering_wheel_angle v' = max (- 780) (min 780 (steering_wheel_angle (vehicle_data h))))
     \<and> (map_of all_maneuver_presets name = Some p \<longrightarrow>
         (maneuver_active v \<and> maneuver_name v = Assigned (Some name) \<longrightarrow>
            speed_simulation dt v =
              Inr (v\<lparr>speed_kmh := py_round (get_or (p_speed_kmh p) (speed_kmh v)) 1,
                     steering_wheel_angle :=
                       get_or (p_steering_wheel_angle p) (steering_wheel_angle v),
                     break_value := get_or (p_break_value p) (break_value v)\<rparr>))
         \<and> (maneuver_active (vehicle_data h)
              \<and> maneuver_name (vehicle_data h) = Assigned (Some name) \<longrightarrow>
            (let r = simulate_vehicle_data now u h; w = vehicle_data h; w' = vehicle_data (snd r)
             in fst r = None
              \<and> speed_kmh w' =
                  max 0 (min 300 (py_round (get_or (p_speed_kmh p) (speed_kmh w)) 1))
              \<and> steering_wheel_angle w' =
                  max (- 780) (min 780
                    (get_or (p_steering_wheel_angle p) (steering_wheel_angle w)))
              \<and> break_value w' =
                  max 0 (min 100 (get_or (p_break_value p) (break_value w))))))"
proof -
  let ?h1 = "start_maneuver (Some ''Emergency Stop'') h"
  have h1: "simulation_enabled ?h1" "is_running ?h1" "\<not> is_paused ?h1"
    "vehicle_started (vehicle_data ?h1)" "maneuver_active (vehicle_data ?h1)"
    "maneuver_name (vehicle_data ?h1) = Assigned (Some ''Emergency Stop'')"
    using assms by (simp_all add: start_maneuver_started)
  have truthy: "preset_truthy (presets_get (Some ''Emergency Stop''))"
    by (simp add: presets_get_catalogue preset_truthy_def)
  have same: "steering_wheel_angle (vehicle_data ?h1) = steering_wheel_angle (vehicle_data h)"
    using assms(4) by (simp add: start_maneuver_started)
  note stop = simulate_maneuver_preset [OF h1 truthy, of now u]
  have A: "let r = simulate_vehicle_data now u ?h1; v' = vehicle_data (snd r)
      in fst r = None \<and> speed_kmh v' = 0 \<and> break_value v' = 100
       \<and> steering_wheel_angle v' = max (- 780) (min 780 (steering_wheel_angle (vehicle_data h)))"
    unfolding Let_def using stop
    by (simp add: presets_get_catalogue get_or_def py_round_numerals same)
  have B: "speed_simulation dt v =
              Inr (v\<lparr>speed_kmh := py_round (get_or (p_speed_kmh p) (speed_kmh v)) 1,
                     steering_wheel_angle :=
                       get_or (p_steering_wheel_angle p) (steering_wheel_angle v),
                     break_value := get_or (p_break_value p) (break_value v)\<rparr>)"
    if m: "map_of all_maneuver_presets name = Some p"
      and b: "maneuver_active v \<and> maneuver_name v = Assigned (Some name)"
  proof -
    have p: "presets_get (Some name) = p"
      using m by (rule presets_get_known)
    have t: "preset_truthy (presets_get (Some name))"
      using presets_known_truthy [OF m] by (simp add: p)
    from b have "maneuver_active v" "maneuver_name v = Assigned (Some name)" by simp_all
    from speed_simulation_preset [OF this t, of dt] show ?thesis
      by (simp add: p)
  qed
  have C: "let r = simulate_vehicle_data now u h; w = vehicle_data h; w' = vehicle_data (snd r)
             in fst r = None
              \<and> speed_kmh w' =
                  max 0 (min 300 (py_round (get_or (p_speed_kmh p) (speed_kmh w)) 1))
              \<and> steering_wheel_angle w' =
                  max (- 780) (min 780
                    (get_or (p_steering_wheel_angle p) (steering_wheel_angle w)))
              \<and> break_value w' =
                  max 0 (min 100 (get_or (p_break_value p) (break_value w)))"
    if m: "map_of all_maneuver_presets name = Some p"
      and c: "maneuver_active (vehicle_data h)
              \<and> maneuver_name (vehicle_data h) = Assigned (Some name)"
  proof -
    have p: "presets_get (Some name) = p"
      using m by (rule presets_get_known)
    have t: "preset_truthy (presets_get (Some name))"
      using presets_known_truthy [OF m] by (simp add: p)
    from c have act: "maneuver_active (vehicle_data h)"
      and nm: "maneuver_name (vehicle_data h) = Assigned (Some name)" by simp_all
    note facts = simulate_maneuver_preset [OF assms act nm t, of now u]
    show ?thesis
      unfolding Let_def using facts by (simp add: p)
  qed
  show ?thesis
    using A B C by blast
qed

theorem emergency_stop_maneuver_witness:
  "simulation_enabled sharp_turn_handler \<and> is_running sharp_turn_handler
   \<and> \<not> is_paused sharp_turn_handler \<and> vehicle_started (vehicle_data sharp_turn_handler)
   \<and> accel_value (vehicle_data sharp_turn_handler) = 80
   \<and> speed_kmh (vehicle_data sharp_turn_handler) = 120
   \<and> speed_kmh (vehicle_data (snd (simulate_vehicle_data 1 sample_draws
        (start_maneuver (Some ''Emergency Stop'') sharp_turn_handler)))) = 0
   \<and> break_value (vehicle_data (snd (simulate_vehicle_data 1 sample_draws
        (start_maneuver (Some ''Emergency Stop'') sharp_turn_handler)))) = 100
   \<and> maneuver_active (vehicle_data sharp_turn_handler)
   \<and> maneuver_name (vehicle_data sharp_turn_handler) = Assigned (Some ''Sharp Turn'')
   \<and> map_of all_maneuver_presets ''Sharp Turn'' =
        Some \<lparr>p_speed_kmh = Some 30, p_steering_wheel_angle = Some 300, p_break_value = None\<rparr>
   \<and> speed_kmh (vehicle_data (snd (simulate_vehicle_data 1 sample_draws sharp_turn_handler))) = 30
   \<and> steering_wheel_angle
        (vehicle_data (snd (simulate_vehicle_data 1 sample_draws sharp_turn_handler))) = 300
   \<and> break_value (vehicle_data (snd (simulate_vehicle_data 1 sample_draws sharp_turn_handler))) = 0"
  using emergency_stop_maneuver
    [where h = sharp_turn_handler and now = 1 and u = sample_draws and name = "''Sharp Turn''"
       and p = "\<lparr>p_speed_kmh = Some 30, p_steering_wheel_angle = Some 300, p_break_value = None\<rparr>"
       and v = "vehicle_data sharp_turn_handler" and dt = 1]
  by (simp add: sharp_turn_handler_def cruising_handler_def start_maneuver_def
      ControlHandler_init_def VehicleData_default_def all_maneuver_presets_def Let_def
      get_or_def py_round_numerals)

text \<open>
  C10. A maneuver whose name is no catalogue key. As stated the claim fails: the speed
  is still rounded to one decimal on line 62, after the maneuver branch, so a speed of
  45.57 leaves the step as 45.6 and not as its clamped value.
\<close>

theorem unknown_maneuver_rounds_speed:
  "simulation_enabled unnamed_start_handler \<and> is_running unnamed_start_handler
   \<and> \<not> is_paused unnamed_start_handler
   \<and> vehicle_started (vehicle_data unnamed_start_handler)
   \<and> maneuver_active (vehicle_data unnamed_start_handler)
   \<and> maneuver_name (vehicle_data unnamed_start_handler) = Assigned None
   \<and> max 0 (min 300 (speed_kmh (vehicle_data unnamed_start_handler))) = 4557 / 100
   \<and> speed_kmh (vehicle_data (snd (simulate_vehicle_data 1 sample_draws unnamed_start_handler)))
       = 228 / 5"
proof -
  have "presets_get None = empty_preset"
    by (simp add: presets_get_def)
  from simulate_maneuver_no_preset(2) [OF unnamed_start_handler_flags _ _ _ this,
      of 1 sample_draws]
  have "speed_kmh (vehicle_data (snd (simulate_vehicle_data 1 sample_draws
      unnamed_start_handler))) = max 0 (min 300 (py_round (4557 / 100) 1))"
    by (simp add: unnamed_start_handler_data)
  moreover have "py_round (4557 / 100) 1 = 228 / 5"
    by (simp add: py_round_def round_half_even_def)
  ultimately show ?thesis
    by (simp add: unnamed_start_handler_flags unnamed_start_handler_data)
qed

text \<open>
  C10, amended. \<open>start_maneuver\<close> accepts any name, \<open>None\<close> included, whenever the
  vehicle is started. For every enabled, running, unpaused handler whose vehicle is
  started, with \<open>maneuver_active\<close> set and \<open>maneuver_name\<close> assigned a value that is no
  catalogue key, the step returns normally; \<open>steering_wheel_angle\<close> and \<open>break_value\<close>
  leave it unchanged but for the final clamp, and \<open>speed_kmh\<close> unchanged but for the
  rounding to one decimal and the final clamp.
\<close>

theorem unknown_maneuver_step:
  "(vehicle_started (vehicle_data h) \<longrightarrow>
      vehicle_data (start_maneuver name h) =
        (vehicle_data h)\<lparr>maneuver_active := True, maneuver_name := Assigned name\<rparr>)
   \<and> (simulation_enabled h \<and> is_running h \<and> \<not> is_paused h
       \<and> vehicle_started (vehicle_data h) \<and> maneuver_active (vehicle_data h)
       \<and> maneuver_name (vehicle_data h) = Assigned name
       \<and> name \<notin> set (map (Some \<circ> fst) all_maneuver_presets) \<longrightarrow>
      (let r = simulate_vehicle_data now u h; v = vehicle_data h; v' = vehicle_data (snd r)
       in fst r = None
        \<and> speed_kmh v' = max 0 (min 300 (py_round (speed_kmh v) 1))
        \<and> steering_wheel_angle v' = max (- 780) (min 780 (steering_wheel_angle v))
        \<and> break_value v' = max 0 (min 100 (break_value v))))"
proof -
  have A: "vehicle_data (start_maneuver name h) =
        (vehicle_data h)\<lparr>maneuver_active := True, maneuver_name := Assigned name\<rparr>"
    if "vehicle_started (vehicle_data h)"
    using that by (rule start_maneuver_started)
  have B: "let r = simulate_vehicle_data now u h; v = vehicle_data h; v' = vehicle_data (snd r)
       in fst r = None
        \<and> speed_kmh v' = max 0 (min 300 (py_round (speed_kmh v) 1))
        \<and> steering_wheel_angle v' = max (- 780) (min 780 (steering_wheel_angle v))
        \<and> break_value v' = max 0 (min 100 (break_value v))"
    if b: "simulation_enabled h \<and> is_running h \<and> \<not> is_paused h
       \<and> vehicle_started (vehicle_data h) \<and> maneuver_active (vehicle_data h)
       \<and> maneuver_name (vehicle_data h) = Assigned name
       \<and> name \<notin> set (map (Some \<circ> fst) all_maneuver_presets)"
  proof -
    from b have e: "presets_get name = empty_preset"
      by (intro presets_get_unknown) simp
    from b have hyps: "simulation_enabled h" "is_running h" "\<not> is_paused h"
      "vehicle_started (vehicle_data h)" "maneuver_active (vehicle_data h)"
      "maneuver_name (vehicle_data h) = Assigned name" by simp_all
    note facts = simulate_maneuver_no_preset [OF hyps e, of now u]
    show ?thesis
      unfolding Let_def using facts by simp
  qed
  show ?thesis
    using A B by blast
qed

theorem unknown_maneuver_step_witness:
  "simulation_enabled unnamed_start_handler \<and> is_running unnamed_start_handler
   \<and> \<not> is_paused unnamed_start_handler
   \<and> vehicle_started (vehicle_data unnamed_start_handler)
   \<and> maneuver_active (vehicle_data unnamed_start_handler)
   \<and> maneuver_name (vehicle_data unnamed_start_handler) = Assigned None
   \<and> None \<notin> set (map (Some \<circ> fst) all_maneuver_presets)
   \<and> fst (simulate_vehicle_data 1 sample_draws unnamed_start_handler) = None
   \<and> speed_kmh (vehicle_data (snd (simulate_vehicle_data 1 sample_draws unnamed_start_handler)))
       = max 0 (min 300 (py_round (4557 / 100) 1))
   \<and> steering_wheel_angle
       (vehicle_data (snd (simulate_vehicle_data 1 sample_draws unnamed_start_handler))) = 0
   \<and> break_value
       (vehicle_data (snd (simulate_vehicle_data 1 sample_draws unnamed_start_handler))) = 0"
  using unknown_maneuver_step [of unnamed_start_handler None 1 sample_draws]
  by (simp add: unnamed_start_handler_flags unnamed_start_handler_data
      all_maneuver_presets_def VehicleData_default_def Let_def)

text \<open>
  C4. Odometer monotonicity. As stated the claim fails: \<open>round(odometer_km, 3)\<close> on line 67
  lowers an odometer that carries more than three decimals when the distance added is
  small. With \<open>odometer_km = 0.0004\<close>, gear D and the accelerator at 2, a step half a second
  long reaches 0.5 km/h, adds 0.00007 km and rounds the odometer to 0.0.
\<close>

theorem odometer_rounded_down:
  "(0::real) \<le> 1 / 2
   \<and> odometer_km (vehicle_data fine_odometer_handler) = 1 / 2500
   \<and> odometer_km (vehicle_data
        (simulate_steps [(1 / 2, sample_draws)] fine_odometer_handler)) = 0"
proof -
  let ?v = "vehicle_data fine_odometer_handler"
  let ?v2 = "?v\<lparr>rpm := 5, speed_kmh := 1 / 2\<rparr>"
  have r: "rpm_simulation (1 / 2) ?v = ?v\<lparr>rpm := 5\<rparr>"
    by (simp add: fine_odometer_handler_data rpm_simulation_def VehicleData_default_def
        Let_def py_round_def round_half_even_def)
  have s: "speed_simulation (1 / 2) (?v\<lparr>rpm := 5\<rparr>) = Inr ?v2"
    by (simp add: fine_odometer_handler_data speed_simulation_def VehicleData_default_def
        driving_gears_def Let_def py_round_def round_half_even_def)
  have o: "odometer_km (odometer_update (1 / 2) ?v2) = 0"
    by (simp add: fine_odometer_handler_data odometer_update_def VehicleData_default_def
        py_round_def round_half_even_def)
  have "simulate_vehicle_data (1 / 2) sample_draws fine_odometer_handler =
      (None, fine_odometer_handler
         \<lparr>vehicle_data := clamp_limits (pose_and_rates sample_draws
            (odometer_update (1 / 2) ?v2)), last_update_time := 1 / 2\<rparr>)"
    using simulate_started_returns [of fine_odometer_handler "1 / 2" ?v2 sample_draws]
      r s fine_odometer_handler_flags
    by (simp add: fine_odometer_handler_data)
  then have "odometer_km (vehicle_data
      (snd (simulate_vehicle_data (1 / 2) sample_draws fine_odometer_handler))) = 0"
    by (simp add: stage_fields o)
  then show ?thesis
    by (simp add: fine_odometer_handler_flags fine_odometer_handler_data)
qed

text \<open>
  C4, amended. Across any finite sequence of calls of the step, each with an elapsed
  time that is not negative, \<open>odometer_km\<close> never decreases, provided the odometer the
  sequence starts from is a value that rounding to three decimals leaves unchanged (as
  0.0 is, and as every odometer the step has written is): the odometer after any
  prefix of the sequence is at most the odometer after the whole of it.
\<close>

theorem odometer_nondecreasing:
  assumes "\<forall>(dt, u) \<in> set (xs @ ys). 0 \<le> dt"
    and "three_decimals (odometer_km (vehicle_data h))"
  shows "odometer_km (vehicle_data (simulate_steps xs h))
           \<le> odometer_km (vehicle_data (simulate_steps (xs @ ys) h))"
proof -
  from assms(1) have xs: "\<forall>(dt, u) \<in> set xs. 0 \<le> dt" and ys: "\<forall>(dt, u) \<in> set ys. 0 \<le> dt"
    by auto
  from xs assms(2) have "three_decimals (odometer_km (vehicle_data (simulate_steps xs h)))"
    using simulate_steps_odometer [of xs h] by simp
  with ys have "odometer_km (vehicle_data (simulate_steps xs h))
      \<le> odometer_km (vehicle_data (simulate_steps ys (simulate_steps xs h)))"
    using simulate_steps_odometer [of ys "simulate_steps xs h"] by simp
  then show ?thesis
    by (simp add: simulate_steps_append)
qed

theorem odometer_nondecreasing_witness:
  "list_all (\<lambda>(dt, u). 0 \<le> dt) (first_steps @ later_steps)
   \<and> three_decimals (odometer_km (vehicle_data scenario_handler))
   \<and> odometer_km (vehicle_data (simulate_steps first_steps scenario_handler))
       \<le> odometer_km (vehicle_data (simulate_steps (first_steps @ later_steps)
            scenario_handler))"
proof -
  have a: "list_all (\<lambda>(dt, u). 0 \<le> dt) (first_steps @ later_steps)"
    by (simp add: first_steps_def later_steps_def)
  then have a': "\<forall>(dt, u) \<in> set (first_steps @ later_steps). 0 \<le> dt"
    by (simp only: list_all_iff)
  have b: "three_decimals (odometer_km (vehicle_data scenario_handler))"
    by (simp add: three_decimals_def scenario_handler_def ControlHandler_init_def
        VehicleData_default_def py_round_numerals)
  from odometer_nondecreasing [OF a' b] a b show ?thesis
    by (intro conjI)
qed

text \<open>
  C5. \<open>set_gear\<close>, for every string \<open>g\<close> and every state. When the vehicle is started or
  \<open>g\<close> is "P" or "N", the gear becomes \<open>g\<close>, nothing else of the vehicle data changes and
  an INFO record is logged. Otherwise the whole vehicle data (the gear included) is
  unchanged and the only effect is a WARNING record. So the gear is \<open>g\<close> afterwards
  exactly when the condition holds or the gear was \<open>g\<close> already. The function has no
  raising path.
\<close>

theorem set_gear_precondition:
  "(vehicle_started (vehicle_data h) \<or> g = ''P'' \<or> g = ''N'' \<longrightarrow>
      set_gear g h =
        h\<lparr>vehicle_data := (vehicle_data h)\<lparr>gear := g\<rparr>,
          log_records := log_records h @ [(INFO, ''Gear set to: '' @ g @ ''.'')]\<rparr>)
   \<and> (\<not> (vehicle_started (vehicle_data h) \<or> g = ''P'' \<or> g = ''N'') \<longrightarrow>
      vehicle_data (set_gear g h) = vehicle_data h
      \<and> set_gear g h =
          h\<lparr>log_records :=
              log_records h @ [(WARNING, ''Cannot set gear '' @ g @ '': Vehicle is off.'')]\<rparr>)
   \<and> (gear (vehicle_data (set_gear g h)) = g \<longleftrightarrow>
        vehicle_started (vehicle_data h) \<or> g = ''P'' \<or> g = ''N'' \<or> gear (vehicle_data h) = g)"
  by (auto simp: set_gear_def)

theorem set_gear_precondition_witness:
  "\<not> (vehicle_started (vehicle_data fresh_handler) \<or> ''D'' = ''P'' \<or> ''D'' = ''N'')
   \<and> gear (vehicle_data (set_gear ''D'' fresh_handler)) = ''N''
   \<and> log_records (set_gear ''D'' fresh_handler) =
       [(INFO, ''ControlHandler initialized.''),
        (WARNING, ''Cannot set gear D: Vehicle is off.'')]
   \<and> gear (vehicle_data (set_gear ''P'' fresh_handler)) = ''P''"
  using set_gear_precondition [of fresh_handler "''D''"]
    set_gear_precondition [of fresh_handler "''P''"]
  by (simp add: fresh_handler_data) (simp add: fresh_handler_def ControlHandler_init_def)

text \<open>
  C6. Reset. As stated the claim fails: a dictionary that names \<open>vehicle_started\<close> as
  true does not keep that value, lines 119--121 overwrite it; and the empty dictionary,
  from which the dataclass constructor builds a valid record, leaves an out-of-range
  accelerator value where it was.
\<close>

theorem reset_overrides_named_flag:
  "d_vehicle_started started_dict = Some True
   \<and> vehicle_started (vehicle_data (reset_vehicle 1 started_dict fresh_handler)) = False
   \<and> validate (VehicleData_of_dict empty_dict)
   \<and> \<not> validate (vehicle_data (reset_vehicle 1 empty_dict unnamed_maneuver_handler))"
  by (simp add: started_dict_def empty_dict_def reset_vehicle_def validate_def
      VehicleData_of_dict_def setattrs_def get_or_def VehicleData_default_def
      unnamed_maneuver_handler_data)

text \<open>
  C6, amended. After \<open>reset_vehicle(d)\<close> every field that \<open>d\<close> names, other than
  \<open>vehicle_started\<close> and \<open>maneuver_active\<close>, holds \<open>d\<close>'s value; \<open>vehicle_started\<close> and
  \<open>maneuver_active\<close> are false and \<open>maneuver_name\<close> is \<open>None\<close> whatever \<open>d\<close> says;
  \<open>is_running\<close> is true, \<open>is_paused\<close> false and the step timer is the time of the call.
  Whenever \<open>d\<close> names each of the six range-checked fields with a value in its range, in
  particular when \<open>d\<close> is the dictionary of a complete record that satisfies \<open>validate\<close>,
  \<open>validate\<close> holds right after the reset.
\<close>

theorem reset_vehicle_postcondition:
  "(let h' = reset_vehicle now d h; v' = vehicle_data h'
    in (\<forall>x. d_rpm d = Some x \<longrightarrow> rpm v' = x)
     \<and> (\<forall>x. d_speed_kmh d = Some x \<longrightarrow> speed_kmh v' = x)
     \<and> (\<forall>x. d_odometer_km d = Some x \<longrightarrow> odometer_km v' = x)
     \<and> (\<forall>x. d_gear d = Some x \<longrightarrow> gear v' = x)
     \<and> (\<forall>x. d_pos_x_m d = Some x \<longrightarrow> pos_x_m v' = x)
     \<and> (\<forall>x. d_pos_y_m d = Some x \<longrightarrow> pos_y_m v' = x)
     \<and> (\<forall>x. d_pos_z_m d = Some x \<longrightarrow> pos_z_m v' = x)
     \<and> (\<forall>x. d_angle_roll_deg d = Some x \<longrightarrow> angle_roll_deg v' = x)
     \<and> (\<forall>x. d_angle_pitch_deg d = Some x \<longrightarrow> angle_pitch_deg v' = x)
     \<and> (\<forall>x. d_angle_yaw_deg d = Some x \<longrightarrow> angle_yaw_deg v' = x)
     \<and> (\<forall>x. d_roll_rate_degs d = Some x \<longrightarrow> roll_rate_degs v' = x)
     \<and> (\<forall>x. d_pitch_rate_degs d = Some x \<longrightarrow> pitch_rate_degs v' = x)
     \<and> (\<forall>x. d_yaw_rate_degs d = Some x \<longrightarrow> yaw_rate_degs v' = x)
     \<and> (\<forall>x. d_clutch_value d = Some x \<longrightarrow> clutch_value v' = x)
     \<and> (\<forall>x. d_break_value d = Some x \<longrightarrow> break_value v' = x)
     \<and> (\<forall>x. d_accel_value d = Some x \<longrightarrow> accel_value v' = x)
     \<and> (\<forall>x. d_steering_wheel_angle d = Some x \<longrightarrow> steering_wheel_angle v' = x)
     \<and> \<not> vehicle_started v' \<and> \<not> maneuver_active v' \<and> maneuver_name v' = Assigned None
     \<and> is_running h' \<and> \<not> is_paused h' \<and> last_update_time h' = now
     \<and> (dict_in_limits d \<longrightarrow> validate v'))
   \<and> (validate v0 \<longrightarrow> validate (vehicle_data (reset_vehicle now (vehicle_data_dict v0) h)))"
proof -
  have fields: "vehicle_data (reset_vehicle now d h) =
      (setattrs d (vehicle_data h))\<lparr>vehicle_started := False, maneuver_active := False,
         maneuver_name := Assigned None\<rparr>" for d
    by (simp add: reset_vehicle_def)
  have lim: "validate (vehicle_data (reset_vehicle now d h))" if "dict_in_limits d" for d
    using that by (simp only: fields validate_flags_irrelevant setattrs_in_limits)
  have named: "(\<forall>x. d_rpm d = Some x \<longrightarrow> rpm (setattrs d v) = x)
     \<and> (\<forall>x. d_speed_kmh d = Some x \<longrightarrow> speed_kmh (setattrs d v) = x)
     \<and> (\<forall>x. d_odometer_km d = Some x \<longrightarrow> odometer_km (setattrs d v) = x)
     \<and> (\<forall>x. d_gear d = Some x \<longrightarrow> gear (setattrs d v) = x)
     \<and> (\<forall>x. d_pos_x_m d = Some x \<longrightarrow> pos_x_m (setattrs d v) = x)
     \<and> (\<forall>x. d_pos_y_m d = Some x \<longrightarrow> pos_y_m (setattrs d v) = x)
     \<and> (\<forall>x. d_pos_z_m d = Some x \<longrightarrow> pos_z_m (setattrs d v) = x)
     \<and> (\<forall>x. d_angle_roll_deg d = Some x \<longrightarrow> angle_roll_deg (setattrs d v) = x)
     \<and> (\<forall>x. d_angle_pitch_deg d = Some x \<longrightarrow> angle_pitch_deg (setattrs d v) = x)
     \<and> (\<forall>x. d_angle_yaw_deg d = Some x \<longrightarrow> angle_yaw_deg (setattrs d v) = x)
     \<and> (\<forall>x. d_roll_rate_degs d = Some x \<longrightarrow> roll_rate_degs (setattrs d v) = x)
     \<and> (\<forall>x. d_pitch_rate_degs d = Some x \<longrightarrow> pitch_rate_degs (setattrs d v) = x)
     \<and> (\<forall>x. d_yaw_rate_degs d = Some x \<longrightarrow> yaw_rate_degs (setattrs d v) = x)
     \<and> (\<forall>x. d_clutch_value d = Some x \<longrightarrow> clutch_value (setattrs d v) = x)
     \<and> (\<forall>x. d_break_value d = Some x \<longrightarrow> break_value (setattrs d v) = x)
     \<and> (\<forall>x. d_accel_value d = Some x \<longrightarrow> accel_value (setattrs d v) = x)
     \<and> (\<forall>x. d_steering_wheel_angle d = Some x \<longrightarrow> steering_wheel_angle (setattrs d v) = x)"
    for v
    by (simp add: setattrs_def get_or_def)
  have flags: "is_running (reset_vehicle now d h)" "\<not> is_paused (reset_vehicle now d h)"
    "last_update_time (reset_vehicle now d h) = now"
    by (simp_all add: reset_vehicle_def)
  have full: "validate (vehicle_data (reset_vehicle now (vehicle_data_dict v0) h))"
    if "validate v0"
    using that by (intro lim vehicle_data_dict_in_limits)
  show ?thesis
    unfolding Let_def using named [of "vehicle_data h"] flags lim [of d] full
    by (simp add: fields)
qed

theorem reset_vehicle_postcondition_witness:
  "d_rpm (get_or (cfg_vehicle_data get_default_config) empty_dict) = Some 1500
   \<and> d_accel_value (get_or (cfg_vehicle_data get_default_config) empty_dict) = Some (46 / 10)
   \<and> dict_in_limits (get_or (cfg_vehicle_data get_default_config) empty_dict)
   \<and> \<not> validate (vehicle_data unnamed_maneuver_handler)
   \<and> rpm (vehicle_data (reset_vehicle 7
        (get_or (cfg_vehicle_data get_default_config) empty_dict) unnamed_maneuver_handler)) = 1500
   \<and> accel_value (vehicle_data (reset_vehicle 7
        (get_or (cfg_vehicle_data get_default_config) empty_dict) unnamed_maneuver_handler))
       = 46 / 10
   \<and> validate (vehicle_data (reset_vehicle 7
        (get_or (cfg_vehicle_data get_default_config) empty_dict) unnamed_maneuver_handler))
   \<and> validate (vehicle_data fresh_handler)
   \<and> validate (vehicle_data (reset_vehicle 7 (vehicle_data_dict (vehicle_data fresh_handler))
        unnamed_maneuver_handler))"
proof -
  let ?d = "get_or (cfg_vehicle_data get_default_config) empty_dict"
  let ?v' = "vehicle_data (reset_vehicle 7 ?d unnamed_maneuver_handler)"
  have d1: "d_rpm ?d = Some 1500" and d2: "d_accel_value ?d = Some (46 / 10)"
    by (simp_all add: get_default_config_def get_or_def)
  have d3: "dict_in_limits ?d"
    by (simp add: get_default_config_def get_or_def dict_in_limits_def named_within_def)
  have bad: "\<not> validate (vehicle_data unnamed_maneuver_handler)"
    by (simp add: unnamed_maneuver_handler_data validate_def VehicleData_default_def)
  have good: "validate (vehicle_data fresh_handler)"
    by (simp add: fresh_handler_data validate_def)
  note post = reset_vehicle_postcondition
    [of 7 ?d unnamed_maneuver_handler "vehicle_data fresh_handler", unfolded Let_def]
  from post have "\<forall>x. d_rpm ?d = Some x \<longrightarrow> rpm ?v' = x"
    by (elim conjE) assumption
  from this [rule_format, OF d1] have r1: "rpm ?v' = 1500" .
  from post have "\<forall>x. d_accel_value ?d = Some x \<longrightarrow> accel_value ?v' = x"
    by (elim conjE) assumption
  from this [rule_format, OF d2] have r2: "accel_value ?v' = 46 / 10" .
  from post have "dict_in_limits ?d \<longrightarrow> validate ?v'"
    by (elim conjE) assumption
  from this [rule_format, OF d3] have r3: "validate ?v'" .
  from post have "validate (vehicle_data fresh_handler) \<longrightarrow>
      validate (vehicle_data (reset_vehicle 7
        (vehicle_data_dict (vehicle_data fresh_handler)) unnamed_maneuver_handler))"
    by (elim conjE) assumption
  from this [rule_format, OF good] have r4: "validate (vehicle_data (reset_vehicle 7
      (vehicle_data_dict (vehicle_data fresh_handler)) unnamed_maneuver_handler))" .
  show ?thesis
    by (intro conjI d1 d2 d3 bad good r1 r2 r3 r4)
qed

text \<open>
  C8. The load policy is claimed for every path. For a path other than the manager's
  own whose file is missing, line 88 saves the defaults without passing the path on:
  they are written to the manager's own file and the requested path still does not
  exist. For a path without a directory part, \<open>os.makedirs('')\<close> on line 87 raises
  FileNotFoundError to the caller.
\<close>

theorem load_config_missing_other_path:
  "fst (load_config default_manager (Some ''other/cfg.json'') empty_world)
     = Inr get_default_config
   \<and> files (snd (load_config default_manager (Some ''other/cfg.json'') empty_world))
        ''other/cfg.json'' = None
   \<and> files (snd (load_config default_manager (Some ''other/cfg.json'') empty_world))
        ''data/config.json'' = Some (Document get_default_config)
   \<and> fst (load_config default_manager (Some ''cfg.json'') empty_world) = Inl FileNotFoundError"
  by (simp add: load_config_def save_config_def path_or_def default_manager_def
      ConfigManager_init_def empty_world_def dirname_examples Let_def)

theorem load_config_missing_other_path_witness:
  "files empty_world ''other/cfg.json'' = None
   \<and> files empty_world ''cfg.json'' = None
   \<and> config_file default_manager = ''data/config.json''
   \<and> fst (load_config default_manager (Some ''other/cfg.json'') empty_world)
        = Inr get_default_config
   \<and> files (snd (load_config default_manager (Some ''other/cfg.json'') empty_world))
        ''other/cfg.json'' = None
   \<and> fst (load_config default_manager (Some ''cfg.json'') empty_world) = Inl FileNotFoundError"
  using load_config_missing_other_path
  by (simp add: empty_world_def default_manager_def ConfigManager_init_def)

text \<open>
  C9. Save and load round trip. For every vehicle data \<open>v\<close>, every configuration
  dictionary and every path with a directory part that can be written: putting the
  dictionary of \<open>v\<close> under \<open>"vehicle_data"\<close>, saving with \<open>save_config\<close>, loading with
  \<open>load_config\<close> and constructing \<open>VehicleData(**loaded["vehicle_data"])\<close> gives a record
  equal to \<open>v\<close> in each of the nineteen dataclass fields. (The attribute \<open>maneuver_name\<close>
  is no dataclass field, is not saved and is unassigned in the new record.)
\<close>

theorem save_load_roundtrip:
  assumes "dirname p \<noteq> []" "write_error w p = None"
  shows
    "(let cfg' = cfg\<lparr>cfg_vehicle_data := Some (vehicle_data_dict v)\<rparr>;
          saved = save_config cm cfg' (Some p) w;
          loaded = load_config cm (Some p) (snd saved)
      in fst saved = None
       \<and> (case fst loaded of
            Inl e \<Rightarrow> False
          | Inr c \<Rightarrow>
              dataclass_eq (VehicleData_of_dict (get_or (cfg_vehicle_data c) empty_dict)) v
              \<and> VehicleData_of_dict (get_or (cfg_vehicle_data c) empty_dict)
                  = v\<lparr>maneuver_name := Absent\<rparr>))"
proof -
  let ?cfg = "cfg\<lparr>cfg_vehicle_data := Some (vehicle_data_dict v)\<rparr>"
  from assms(1) have p: "path_or (Some p) (config_file cm) = p"
    by (simp add: path_or_def dirname_nonempty)
  have saved: "save_config cm ?cfg (Some p) w =
      (None, w\<lparr>files := (files w)(p \<mapsto> Document ?cfg),
               fs_log := fs_log w @ [(INFO, ''Configuration saved to '' @ p)]\<rparr>)"
    using assms by (simp add: save_config_def p)
  have loaded: "fst (load_config cm (Some p)
      (w\<lparr>files := (files w)(p \<mapsto> Document ?cfg),
         fs_log := fs_log w @ [(INFO, ''Configuration saved to '' @ p)]\<rparr>)) = Inr ?cfg"
    by (simp add: load_config_def p)
  have rebuilt: "VehicleData_of_dict (get_or (cfg_vehicle_data ?cfg) empty_dict)
      = v\<lparr>maneuver_name := Absent\<rparr>"
    by (simp add: get_or_def VehicleData_of_vehicle_data_dict)
  show ?thesis
    unfolding Let_def saved snd_conv fst_conv loaded sum.case rebuilt
    by (simp add: dataclass_eq_attr)
qed

theorem save_load_roundtrip_witness:
  "dirname ''/home/user/saved.json'' \<noteq> []
   \<and> write_error empty_world ''/home/user/saved.json'' = None
   \<and> maneuver_name (vehicle_data sharp_turn_handler) = Assigned (Some ''Sharp Turn'')
   \<and> (case fst (load_config default_manager (Some ''/home/user/saved.json'')
          (snd (save_config default_manager
             (get_default_config\<lparr>cfg_vehicle_data :=
                Some (vehicle_data_dict (vehicle_data sharp_turn_handler))\<rparr>)
             (Some ''/home/user/saved.json'') empty_world))) of
         Inl e \<Rightarrow> False
       | Inr c \<Rightarrow>
           dataclass_eq (VehicleData_of_dict (get_or (cfg_vehicle_data c) empty_dict))
             (vehicle_data sharp_turn_handler))"
proof -
  have a: "dirname ''/home/user/saved.json'' \<noteq> []"
    by (simp add: dirname_examples)
  have b: "write_error empty_world ''/home/user/saved.json'' = None"
    by (simp add: empty_world_def)
  have c: "maneuver_name (vehicle_data sharp_turn_handler) = Assigned (Some ''Sharp Turn'')"
    by (simp add: sharp_turn_handler_def cruising_handler_def start_maneuver_def
        ControlHandler_init_def VehicleData_default_def)
  note rt = save_load_roundtrip [OF a b, where cfg = get_default_config
      and v = "vehicle_data sharp_turn_handler" and cm = default_manager, unfolded Let_def]
  from rt have "case fst (load_config default_manager (Some ''/home/user/saved.json'')
          (snd (save_config default_manager
             (get_default_config\<lparr>cfg_vehicle_data :=
                Some (vehicle_data_dict (vehicle_data sharp_turn_handler))\<rparr>)
             (Some ''/home/user/saved.json'') empty_world))) of
         Inl e \<Rightarrow> False
       | Inr c \<Rightarrow>
           dataclass_eq (VehicleData_of_dict (get_or (cfg_vehicle_data c) empty_dict))
             (vehicle_data sharp_turn_handler)"
    by (auto split: sum.splits)
  with a b c show ?thesis
    by (intro conjI)
qed

end
